theory Spec2Isabelle
  imports Complex_Main "HOL-Library.Sublist" "HOL-Library.AList"
begin

section \<open>Values and library calls the services rely on\<close>

text \<open>
  The conversation service is Python on top of four libraries: \<^verbatim>\<open>datetime\<close>,
  \<^verbatim>\<open>json\<close>, pydantic (the message and thread classes) and redis-om (the stored
  record). The services are embedded function by function; of the libraries only the
  calls the services make are modelled, as follows.

  \<^item> An exception is a value of \<open>error\<close>; a call that may raise returns \<open>error + 'a\<close>.
  \<^item> A \<^verbatim>\<open>str\<close> is a \<open>string\<close>, one \<open>char\<close> per code point, so code points up to 255.
  \<^item> A \<^verbatim>\<open>float\<close> is the rational number it denotes; the services never compute with
    floats, they only pass them on (infinities and NaN are outside the model).
  \<^item> A \<^verbatim>\<open>datetime\<close> is the record of its fields, with the UTC offset in whole minutes
    (\<open>None\<close> for a naive value), as \<^verbatim>\<open>datetime.now(timezone.utc)\<close> and pydantic produce.
\<close>

datatype error =
    ValueError string
  | JSONDecodeError
  | ValidationError
  | TypeError
  | AttributeError
  | KeyError
  | IndexError
  | DataError

subsection \<open>datetime: isoformat and fromisoformat\<close>

record datetime =
  year :: nat
  month :: nat
  day :: nat
  hour :: nat
  minute :: nat
  second :: nat
  microsecond :: nat
  tzinfo :: "int option"

definition is_leap :: "nat \<Rightarrow> bool" where
  "is_leap y = (y mod 4 = 0 \<and> (y mod 100 \<noteq> 0 \<or> y mod 400 = 0))"

definition days_in_month :: "nat \<Rightarrow> nat \<Rightarrow> nat" where
  "days_in_month y m =
     (if m = 2 then (if is_leap y then 29 else 28)
      else if m = 4 \<or> m = 6 \<or> m = 9 \<or> m = 11 then 30 else 31)"

text \<open>The range of field values a Python \<^verbatim>\<open>datetime\<close> object can hold.\<close>

definition valid_datetime :: "datetime \<Rightarrow> bool" where
  "valid_datetime d =
     (1 \<le> year d \<and> year d \<le> 9999 \<and> 1 \<le> month d \<and> month d \<le> 12 \<and>
      1 \<le> day d \<and> day d \<le> days_in_month (year d) (month d) \<and>
      hour d < 24 \<and> minute d < 60 \<and> second d < 60 \<and> microsecond d < 1000000 \<and>
      (case tzinfo d of None \<Rightarrow> True | Some off \<Rightarrow> - 1440 < off \<and> off < 1440))"

definition digit_char :: "nat \<Rightarrow> char" where
  "digit_char n = char_of (48 + n)"

definition digit_val :: "char \<Rightarrow> nat option" where
  "digit_val c =
     (if 48 \<le> (of_char c :: nat) \<and> (of_char c :: nat) \<le> 57 then Some (of_char c - 48)
      else None)"

text \<open>\<open>zfill w n\<close> is the format \<^verbatim>\<open>%0wd\<close> on a number of at most \<open>w\<close> digits.\<close>

fun zfill :: "nat \<Rightarrow> nat \<Rightarrow> string" where
  "zfill 0 n = []"
| "zfill (Suc w) n = zfill w (n div 10) @ [digit_char (n mod 10)]"

fun digits_val :: "nat \<Rightarrow> string \<Rightarrow> nat option" where
  "digits_val acc [] = Some acc"
| "digits_val acc (c # cs) =
     (case digit_val c of None \<Rightarrow> None | Some v \<Rightarrow> digits_val (10 * acc + v) cs)"

definition utcoffset_str :: "int option \<Rightarrow> string" where
  "utcoffset_str tz =
     (case tz of
        None \<Rightarrow> []
      | Some off \<Rightarrow>
          (if off < 0 then ''-'' else ''+'') @
          zfill 2 (nat \<bar>off\<bar> div 60) @ '':'' @ zfill 2 (nat \<bar>off\<bar> mod 60))"

text \<open>
  \<^verbatim>\<open>datetime.isoformat()\<close>: \<^verbatim>\<open>YYYY-MM-DDTHH:MM:SS\<close>, then \<^verbatim>\<open>.ffffff\<close> when the
  microsecond is not zero, then \<^verbatim>\<open>+HH:MM\<close> or \<^verbatim>\<open>-HH:MM\<close> when the value is aware.
\<close>

definition isoformat :: "datetime \<Rightarrow> string" where
  "isoformat d =
     zfill 4 (year d) @ ''-'' @ zfill 2 (month d) @ ''-'' @ zfill 2 (day d) @ ''T'' @
     zfill 2 (hour d) @ '':'' @ zfill 2 (minute d) @ '':'' @ zfill 2 (second d) @
     (if microsecond d \<noteq> 0 then ''.'' @ zfill 6 (microsecond d) else []) @
     utcoffset_str (tzinfo d)"

definition parse_utcoffset :: "string \<Rightarrow> error + int option" where
  "parse_utcoffset s =
     (if s = [] then Inr None
      else if s = ''Z'' then Inr (Some 0)
      else if length s \<noteq> 6 \<or> (s ! 0 \<noteq> CHR ''+'' \<and> s ! 0 \<noteq> CHR ''-'') \<or> s ! 3 \<noteq> CHR '':''
        then Inl (ValueError ''Invalid isoformat string'')
      else
        (case (digits_val 0 (take 2 (drop 1 s)), digits_val 0 (drop 4 s)) of
           (Some hh, Some mm) \<Rightarrow>
             if hh < 24 \<and> mm < 60
             then Inr (Some ((if s ! 0 = CHR ''-'' then - 1 else 1) * int (hh * 60 + mm)))
             else Inl (ValueError ''Invalid isoformat string'')
         | _ \<Rightarrow> Inl (ValueError ''Invalid isoformat string'')))"

definition parse_fraction :: "string \<Rightarrow> error + nat \<times> string" where
  "parse_fraction s =
     (if s \<noteq> [] \<and> hd s = CHR ''.''
      then
        (if length s < 7 then Inl (ValueError ''Invalid isoformat string'')
         else
           (case digits_val 0 (take 6 (drop 1 s)) of
              None \<Rightarrow> Inl (ValueError ''Invalid isoformat string'')
            | Some us \<Rightarrow> Inr (us, drop 7 s)))
      else Inr (0, s))"

text \<open>
  \<^verbatim>\<open>datetime.fromisoformat\<close>, on the strings \<^verbatim>\<open>isoformat()\<close> writes, and on the same
  with the suffix \<^verbatim>\<open>Z\<close> for UTC (the records of the test suite): the layout above, with
  the field ranges checked as the constructor of \<^verbatim>\<open>datetime\<close> checks them. Every other
  string is a \<^verbatim>\<open>ValueError\<close> here; Python reads further ISO-8601 spellings (a date
  alone, a time without seconds, offsets without colon), which the service never writes.
\<close>

definition fromisoformat :: "string \<Rightarrow> error + datetime" where
  "fromisoformat s =
     (if length s < 19 \<or> s ! 4 \<noteq> CHR ''-'' \<or> s ! 7 \<noteq> CHR ''-'' \<or> s ! 10 \<noteq> CHR ''T'' \<or>
         s ! 13 \<noteq> CHR '':'' \<or> s ! 16 \<noteq> CHR '':''
      then Inl (ValueError ''Invalid isoformat string'')
      else
        (case (digits_val 0 (take 4 s), digits_val 0 (take 2 (drop 5 s)),
               digits_val 0 (take 2 (drop 8 s)), digits_val 0 (take 2 (drop 11 s)),
               digits_val 0 (take 2 (drop 14 s)), digits_val 0 (take 2 (drop 17 s))) of
           (Some y, Some mo, Some d, Some h, Some mi, Some se) \<Rightarrow>
             (case parse_fraction (drop 19 s) of
                Inl e \<Rightarrow> Inl e
              | Inr (us, rest) \<Rightarrow>
                  (case parse_utcoffset rest of
                     Inl e \<Rightarrow> Inl e
                   | Inr tz \<Rightarrow>
                       if 1 \<le> y \<and> 1 \<le> mo \<and> mo \<le> 12 \<and> 1 \<le> d \<and> d \<le> days_in_month y mo \<and>
                          h < 24 \<and> mi < 60 \<and> se < 60
                       then Inr \<lparr>year = y, month = mo, day = d, hour = h, minute = mi,
                                 second = se, microsecond = us, tzinfo = tz\<rparr>
                       else Inl (ValueError ''Invalid isoformat string'')))
         | _ \<Rightarrow> Inl (ValueError ''Invalid isoformat string'')))"

subsection \<open>Python objects and json\<close>

text \<open>
  The objects that pass through \<^verbatim>\<open>model_dump\<close>, \<^verbatim>\<open>json.dumps\<close> and
  \<^verbatim>\<open>json.loads\<close>. A \<^verbatim>\<open>dict\<close> is an association list in insertion order, with
  string keys; a key is looked up with \<open>map_of\<close>.
\<close>

datatype pyobj =
    PyNone
  | PyBool bool
  | PyInt int
  | PyFloat rat
  | PyStr string
  | PyList "pyobj list"
  | PyDict "(string \<times> pyobj) list"
  | PyDatetime datetime

text \<open>
  The text of a JSON field is used by the service through \<^verbatim>\<open>json.loads\<close> alone, so a
  text is represented by what \<^verbatim>\<open>json.loads\<close> makes of it: \<open>JsonText v\<close> is a text that
  decodes to \<open>v\<close>, as the text \<^verbatim>\<open>json.dumps(v)\<close> does, and \<open>NotJson s\<close> is a text \<open>s\<close>
  that \<^verbatim>\<open>json.loads\<close> rejects. No text decodes to an object that \<^verbatim>\<open>json.dumps\<close>
  cannot write (one that holds a \<^verbatim>\<open>datetime\<close>), so \<open>json_loads\<close> rejects \<open>JsonText\<close> of
  such an object as well.
\<close>

datatype json_text = JsonText pyobj | NotJson string

fun json_serializable :: "pyobj \<Rightarrow> bool" where
  "json_serializable (PyDatetime d) = False"
| "json_serializable (PyList xs) = list_all json_serializable xs"
| "json_serializable (PyDict kvs) = list_all (\<lambda>kv. json_serializable (snd kv)) kvs"
| "json_serializable v = True"

definition json_dumps :: "pyobj \<Rightarrow> error + json_text" where
  "json_dumps v = (if json_serializable v then Inr (JsonText v) else Inl TypeError)"

fun json_loads :: "json_text \<Rightarrow> error + pyobj" where
  "json_loads (JsonText v) = (if json_serializable v then Inr v else Inl JSONDecodeError)"
| "json_loads (NotJson s) = Inl JSONDecodeError"

text \<open>Truth value of an object, as \<^verbatim>\<open>if x\<close> and \<^verbatim>\<open>x and y\<close> test it.\<close>

fun py_truthy :: "pyobj \<Rightarrow> bool" where
  "py_truthy PyNone = False"
| "py_truthy (PyBool b) = b"
| "py_truthy (PyInt n) = (n \<noteq> 0)"
| "py_truthy (PyFloat f) = (f \<noteq> 0)"
| "py_truthy (PyStr s) = (s \<noteq> [])"
| "py_truthy (PyList xs) = (xs \<noteq> [])"
| "py_truthy (PyDict kvs) = (kvs \<noteq> [])"
| "py_truthy (PyDatetime d) = True"

text \<open>\<^verbatim>\<open>for x in v\<close>: the elements of a list, the keys of a dict, the characters of a string.\<close>

fun py_iter :: "pyobj \<Rightarrow> error + pyobj list" where
  "py_iter (PyList xs) = Inr xs"
| "py_iter (PyDict kvs) = Inr (map (\<lambda>kv. PyStr (fst kv)) kvs)"
| "py_iter (PyStr s) = Inr (map (\<lambda>c. PyStr [c]) s)"
| "py_iter v = Inl TypeError"

text \<open>\<^verbatim>\<open>v.get(k)\<close>: only a dict has the method.\<close>

fun py_get :: "pyobj \<Rightarrow> string \<Rightarrow> error + pyobj" where
  "py_get (PyDict kvs) k = Inr (case map_of kvs k of None \<Rightarrow> PyNone | Some v \<Rightarrow> v)"
| "py_get v k = Inl AttributeError"

text \<open>\<^verbatim>\<open>v[0]\<close>.\<close>

fun py_getitem0 :: "pyobj \<Rightarrow> error + pyobj" where
  "py_getitem0 (PyList []) = Inl IndexError"
| "py_getitem0 (PyList (x # xs)) = Inr x"
| "py_getitem0 (PyStr []) = Inl IndexError"
| "py_getitem0 (PyStr (c # cs)) = Inr (PyStr [c])"
| "py_getitem0 (PyDict kvs) = Inl KeyError"
| "py_getitem0 v = Inl TypeError"

text \<open>\<^verbatim>\<open>v.isoformat()\<close>: only a datetime has the method.\<close>

fun py_isoformat :: "pyobj \<Rightarrow> error + pyobj" where
  "py_isoformat (PyDatetime d) = Inr (PyStr (isoformat d))"
| "py_isoformat v = Inl AttributeError"

text \<open>\<^verbatim>\<open>str.lower()\<close> on code points up to 255.\<close>

definition lower_char :: "char \<Rightarrow> char" where
  "lower_char c =
     (let n = (of_char c :: nat)
      in if (65 \<le> n \<and> n \<le> 90) \<or> (192 \<le> n \<and> n \<le> 222 \<and> n \<noteq> 215) then char_of (n + 32)
         else c)"

definition lower :: "string \<Rightarrow> string" where
  "lower s = map lower_char s"

section \<open>The models of \<^verbatim>\<open>app/models/chat.py\<close>\<close>

text \<open>The \<^verbatim>\<open>Literal\<close> type of \<^verbatim>\<open>StudentMessage.action\<close>.\<close>

datatype Action = Question | Answer | Chat | Regenerate

fun action_str :: "Action \<Rightarrow> string" where
  "action_str Question = ''question''"
| "action_str Answer = ''answer''"
| "action_str Chat = ''chat''"
| "action_str Regenerate = ''regenerate''"

text \<open>
  The two message classes. A thread holds both in one list and the services tell them
  apart with \<^verbatim>\<open>isinstance\<close>, so they are the two constructors of one type;
  \<open>feedback\<close> is the \<^verbatim>\<open>Dict[str, float]\<close> in insertion order.
\<close>

datatype Message =
    is_StudentMessage: StudentMessage
      (conversation_id: string) (content: string) (action: Action) (timestamp: datetime)
  | is_TutorMessage: TutorMessage
      (conversation_id: string) (content: string) (feedback: "(string \<times> rat) list")
      (timestamp: datetime)

record ConversationThread =
  id' :: string
  student_id :: string
  usmos :: "string list"
  content_id :: string
  messages :: "Message list"
  created_at :: datetime
  updated_at :: datetime

text \<open>The redis-om \<^verbatim>\<open>HashModel\<close>; \<open>r_id\<close> is its primary key \<^verbatim>\<open>id\<close>.\<close>

record ConversationThreadRedis =
  r_id :: string
  r_student_id :: string
  usmos_json :: json_text
  content_ids :: json_text
  r_messages :: json_text
  r_created_at :: string
  r_updated_at :: string
  is_active :: bool

record ContentResponse =
  cr_content_id :: string
  cr_usmos :: "string list"
  problem :: string
  answer :: string
  explanation :: "string option"

subsection \<open>pydantic validation of constructor arguments\<close>

text \<open>
  What a field of each annotated type accepts from the objects \<^verbatim>\<open>json.loads\<close>
  returns: a string field takes a string, a float field a number, a datetime field a
  datetime or an ISO string. The further coercions of pydantic's lax mode (a boolean or a
  numeric string for a float, a number for a datetime) are validation errors here; the
  service writes none of them.
\<close>

fun validate_str :: "pyobj \<Rightarrow> error + string" where
  "validate_str (PyStr s) = Inr s"
| "validate_str v = Inl ValidationError"

fun validate_float :: "pyobj \<Rightarrow> error + rat" where
  "validate_float (PyFloat f) = Inr f"
| "validate_float (PyInt n) = Inr (of_int n)"
| "validate_float v = Inl ValidationError"

fun validate_datetime :: "pyobj \<Rightarrow> error + datetime" where
  "validate_datetime (PyDatetime d) = Inr d"
| "validate_datetime (PyStr s) =
     (case fromisoformat s of Inl e \<Rightarrow> Inl ValidationError | Inr d \<Rightarrow> Inr d)"
| "validate_datetime v = Inl ValidationError"

fun validate_action :: "pyobj \<Rightarrow> error + Action" where
  "validate_action (PyStr s) =
     (if s = ''question'' then Inr Question
      else if s = ''answer'' then Inr Answer
      else if s = ''chat'' then Inr Chat
      else if s = ''regenerate'' then Inr Regenerate
      else Inl ValidationError)"
| "validate_action v = Inl ValidationError"

fun try_map :: "('a \<Rightarrow> error + 'b) \<Rightarrow> 'a list \<Rightarrow> error + 'b list" where
  "try_map f [] = Inr []"
| "try_map f (x # xs) =
     (case f x of
        Inl e \<Rightarrow> Inl e
      | Inr y \<Rightarrow> (case try_map f xs of Inl e \<Rightarrow> Inl e | Inr ys \<Rightarrow> Inr (y # ys)))"

fun validate_str_list :: "pyobj \<Rightarrow> error + string list" where
  "validate_str_list (PyList xs) = try_map validate_str xs"
| "validate_str_list v = Inl ValidationError"

definition validate_item :: "string \<times> pyobj \<Rightarrow> error + string \<times> rat" where
  "validate_item kv = (case validate_float (snd kv) of Inl e \<Rightarrow> Inl e | Inr f \<Rightarrow> Inr (fst kv, f))"

fun validate_feedback :: "pyobj \<Rightarrow> error + (string \<times> rat) list" where
  "validate_feedback (PyDict kvs) = try_map validate_item kvs"
| "validate_feedback v = Inl ValidationError"

definition required_field ::
  "(string \<times> pyobj) list \<Rightarrow> string \<Rightarrow> (pyobj \<Rightarrow> error + 'a) \<Rightarrow> error + 'a" where
  "required_field kw k validate =
     (case map_of kw k of None \<Rightarrow> Inl ValidationError | Some v \<Rightarrow> validate v)"

section \<open>The world outside the service\<close>

text \<open>
  The Redis database is the list of the records it holds, at most one per primary key,
  whoever wrote them. The clock, \<^verbatim>\<open>uuid.uuid4\<close> and the language model are outside the
  program: each is the sequence of the values its successive calls return, with the
  number of calls made so far. A reply of the language model is \<open>None\<close> when the call
  raises.
\<close>

record world =
  redis :: "ConversationThreadRedis list"
  clock :: "nat \<Rightarrow> datetime"
  ticks :: nat
  uuids :: "nat \<Rightarrow> string"
  uuid_calls :: nat
  lm_replies :: "nat \<Rightarrow> string option"
  lm_calls :: nat

definition datetime_now :: "world \<Rightarrow> datetime \<times> world" where
  "datetime_now w = (clock w (ticks w), w\<lparr>ticks := Suc (ticks w)\<rparr>)"

definition uuid4 :: "world \<Rightarrow> string \<times> world" where
  "uuid4 w = (uuids w (uuid_calls w), w\<lparr>uuid_calls := Suc (uuid_calls w)\<rparr>)"

definition lm_call :: "world \<Rightarrow> string option \<times> world" where
  "lm_call w = (lm_replies w (lm_calls w), w\<lparr>lm_calls := Suc (lm_calls w)\<rparr>)"

definition ConversationThreadRedis_get ::
  "ConversationThreadRedis list \<Rightarrow> string \<Rightarrow> ConversationThreadRedis option" where
  "ConversationThreadRedis_get db pk = find (\<lambda>r. r_id r = pk) db"

text \<open>
  The encoder of redis-py, which every value of a command passes: a \<^verbatim>\<open>str\<close>, an
  \<^verbatim>\<open>int\<close> and a \<^verbatim>\<open>float\<close> are encoded, a \<^verbatim>\<open>bool\<close> and every other object
  raise \<^verbatim>\<open>DataError\<close>.
\<close>

fun redis_encode :: "pyobj \<Rightarrow> error + unit" where
  "redis_encode (PyStr s) = Inr ()"
| "redis_encode (PyInt n) = Inr ()"
| "redis_encode (PyFloat f) = Inr ()"
| "redis_encode v = Inl DataError"

text \<open>
  \<^verbatim>\<open>thread_redis.save()\<close>: redis-om hands the fields of the \<^verbatim>\<open>HashModel\<close> to
  \<^verbatim>\<open>HSET\<close> as they are. Seven of them are strings; \<^verbatim>\<open>is_active: bool\<close> is a
  \<^verbatim>\<open>bool\<close>, so its encoding decides: when it raises, nothing is written, otherwise the
  record replaces the one with its primary key.
\<close>

definition ConversationThreadRedis_save ::
  "ConversationThreadRedis \<Rightarrow> ConversationThreadRedis list \<Rightarrow>
   error + ConversationThreadRedis list" where
  "ConversationThreadRedis_save r db =
     (case redis_encode (PyBool (is_active r)) of
        Inl e \<Rightarrow> Inl e
      | Inr u \<Rightarrow> Inr (r # filter (\<lambda>x. r_id x \<noteq> r_id r) db))"

subsection \<open>Constructors with default factories\<close>

text \<open>
  \<^verbatim>\<open>timestamp: datetime = Field(default_factory=lambda: datetime.now(timezone.utc))\<close>:
  the clock is read when the argument is absent.
\<close>

definition timestamp_field :: "(string \<times> pyobj) list \<Rightarrow> world \<Rightarrow> (error + datetime) \<times> world" where
  "timestamp_field kw w =
     (case map_of kw ''timestamp'' of
        None \<Rightarrow> (let (t, w') = datetime_now w in (Inr t, w'))
      | Some v \<Rightarrow> (validate_datetime v, w))"

text \<open>\<^verbatim>\<open>StudentMessage(**kw)\<close>; keys that are no field are ignored.\<close>

definition StudentMessage_init :: "(string \<times> pyobj) list \<Rightarrow> world \<Rightarrow> (error + Message) \<times> world" where
  "StudentMessage_init kw w =
     (let (ts, w') = timestamp_field kw w
      in ((case required_field kw ''conversation_id'' validate_str of
             Inl e \<Rightarrow> Inl e
           | Inr cid \<Rightarrow>
               (case required_field kw ''content'' validate_str of
                  Inl e \<Rightarrow> Inl e
                | Inr c \<Rightarrow>
                    (case required_field kw ''action'' validate_action of
                       Inl e \<Rightarrow> Inl e
                     | Inr a \<Rightarrow>
                         (case ts of Inl e \<Rightarrow> Inl e | Inr t \<Rightarrow> Inr (StudentMessage cid c a t))))),
          w'))"

text \<open>\<^verbatim>\<open>TutorMessage(**kw)\<close>; \<^verbatim>\<open>feedback\<close> defaults to the empty dict.\<close>

definition TutorMessage_init :: "(string \<times> pyobj) list \<Rightarrow> world \<Rightarrow> (error + Message) \<times> world" where
  "TutorMessage_init kw w =
     (let (ts, w') = timestamp_field kw w
      in ((case required_field kw ''conversation_id'' validate_str of
             Inl e \<Rightarrow> Inl e
           | Inr cid \<Rightarrow>
               (case required_field kw ''content'' validate_str of
                  Inl e \<Rightarrow> Inl e
                | Inr c \<Rightarrow>
                    (case (case map_of kw ''feedback'' of
                             None \<Rightarrow> Inr []
                           | Some v \<Rightarrow> validate_feedback v) of
                       Inl e \<Rightarrow> Inl e
                     | Inr fb \<Rightarrow>
                         (case ts of Inl e \<Rightarrow> Inl e | Inr t \<Rightarrow> Inr (TutorMessage cid c fb t))))),
          w'))"

text \<open>
  \<^verbatim>\<open>ConversationThread(id=..., student_id=..., usmos=..., content_id=..., messages=...,
  created_at=..., updated_at=...)\<close> with every argument given: \<^verbatim>\<open>usmos: List[str]\<close> and
  \<^verbatim>\<open>content_id: str\<close> are validated, \<^verbatim>\<open>messages: List[Any]\<close> is taken as it is.
\<close>

definition ConversationThread_init ::
  "string \<Rightarrow> string \<Rightarrow> pyobj \<Rightarrow> pyobj \<Rightarrow> Message list \<Rightarrow> datetime \<Rightarrow> datetime \<Rightarrow>
   error + ConversationThread" where
  "ConversationThread_init i sid us cid ms ca ua =
     (case validate_str_list us of
        Inl e \<Rightarrow> Inl e
      | Inr us' \<Rightarrow>
          (case validate_str cid of
             Inl e \<Rightarrow> Inl e
           | Inr cid' \<Rightarrow>
               Inr \<lparr>id' = i, student_id = sid, usmos = us', content_id = cid', messages = ms,
                    created_at = ca, updated_at = ua\<rparr>))"

text \<open>\<^verbatim>\<open>message.model_dump()\<close>: the fields of the message's own class, in order.\<close>

fun model_dump :: "Message \<Rightarrow> (string \<times> pyobj) list" where
  "model_dump (StudentMessage cid c a t) =
     [(''conversation_id'', PyStr cid), (''content'', PyStr c),
      (''action'', PyStr (action_str a)), (''timestamp'', PyDatetime t)]"
| "model_dump (TutorMessage cid c fb t) =
     [(''conversation_id'', PyStr cid), (''content'', PyStr c),
      (''feedback'', PyDict (map (\<lambda>kv. (fst kv, PyFloat (snd kv))) fb)),
      (''timestamp'', PyDatetime t)]"

section \<open>\<^verbatim>\<open>app/services/tutor.py\<close>\<close>

text \<open>
  \<open>dspy_configured\<close> is the flag \<^verbatim>\<open>__init__\<close> sets; it is set only when the \<^verbatim>\<open>dspy\<close>
  module was imported, so it stands for \<^verbatim>\<open>self.dspy_configured and dspy is not None\<close>.
\<close>

record TutorService =
  dspy_configured :: bool

fun join :: "string \<Rightarrow> string list \<Rightarrow> string" where
  "join sep [] = []"
| "join sep [x] = x"
| "join sep (x # y # ys) = x @ sep @ join sep (y # ys)"

definition format_conversation_history :: "Message list \<Rightarrow> string" where
  "format_conversation_history ms =
     join [CHR 0x0A]
       (map (\<lambda>message.
               if is_StudentMessage message then ''Student: '' @ content message
               else ''Tutor: '' @ content message) ms)"

text \<open>
  The call of the DSPy program is one reply of the language model; when it raises, the
  \<^verbatim>\<open>except\<close> branch answers from the content.
\<close>

definition generate_dspy_response ::
  "string \<Rightarrow> Message \<Rightarrow> ContentResponse \<Rightarrow> world \<Rightarrow> string \<times> world" where
  "generate_dspy_response conversation_history last_message item w =
     (let (reply, w') = lm_call w
      in ((case reply of
             Some tutor_response \<Rightarrow> tutor_response
           | None \<Rightarrow>
               ''I understand your question about '' @ problem item @ ''. The answer is '' @
               answer item @ ''.''),
          w'))"

definition generate_feedback :: "string \<Rightarrow> (string \<times> rat) list" where
  "generate_feedback response = [(''clarity'', 0.9), (''helpfulness'', 0.85), (''engagement'', 0.8)]"

text \<open>\<^verbatim>\<open>x or d\<close> on an optional string: \<open>d\<close> when \<open>x\<close> is \<^verbatim>\<open>None\<close> or empty.\<close>

definition str_or :: "string option \<Rightarrow> string \<Rightarrow> string" where
  "str_or x d = (case x of None \<Rightarrow> d | Some s \<Rightarrow> if s = [] then d else s)"

text \<open>The rule-based responses of \<^verbatim>\<open>generate_response\<close>, chosen by the action.\<close>

definition fallback_response :: "Message \<Rightarrow> ContentResponse \<Rightarrow> string" where
  "fallback_response last_message item =
     (if action last_message = Question then
        ''That's a good question about '' @ [CHR 0x27] @ problem item @ [CHR 0x27] @
        ''. The answer is '' @ [CHR 0x27] @ answer item @ [CHR 0x27] @ ''. Does that make sense?''
      else if action last_message = Answer then
        (if sublist (lower (answer item)) (lower (content last_message))
         then ''That's correct! Well done.''
         else ''Not quite. The correct answer is '' @ [CHR 0x27] @ answer item @ [CHR 0x27] @
              ''. Let me explain: '' @ str_or (explanation item) ''Think about it carefully.'')
      else if action last_message = Chat then
        ''I understand your comment. Let's continue discussing this problem: '' @ problem item
      else
        ''Let me try to explain this differently. The problem is '' @ [CHR 0x27] @ problem item @
        [CHR 0x27] @ '' and the answer is '' @ [CHR 0x27] @ answer item @ [CHR 0x27] @ ''. '' @
        str_or (explanation item) [])"

definition generate_response ::
  "TutorService \<Rightarrow> ConversationThread \<Rightarrow> ContentResponse \<Rightarrow> world \<Rightarrow> Message \<times> world" where
  "generate_response svc thread item w =
     (case find is_StudentMessage (rev (messages thread)) of
        None \<Rightarrow>
          (let (t, w') = datetime_now w
           in (TutorMessage (id' thread)
                 (''Let's discuss this problem: '' @ problem item @
                  ''. How would you approach solving it?'') [] t,
               w'))
      | Some last_message \<Rightarrow>
          (let conversation_history = format_conversation_history (messages thread);
               (response, w1) =
                 (if dspy_configured svc
                  then generate_dspy_response conversation_history last_message item w
                  else (fallback_response last_message item, w));
               fb = generate_feedback response;
               (t, w2) = datetime_now w1
           in (TutorMessage (id' thread) response fb t, w2)))"

section \<open>\<^verbatim>\<open>app/services/c3.py\<close>\<close>

definition content123 :: ContentResponse where
  "content123 =
     \<lparr>cr_content_id = ''content123'', cr_usmos = [''MATH.ALG.1''],
      problem = ''Solve for x: x + 5 = 10'', answer = ''x = 5'',
      explanation = Some ''Subtract 5 from both sides to isolate x.''\<rparr>"

definition content456 :: ContentResponse where
  "content456 =
     \<lparr>cr_content_id = ''content456'', cr_usmos = [''MATH.ALG.2''],
      problem = ''Solve the system of equations: x + y = 10, x - y = 4'',
      answer = ''x = 7, y = 3'',
      explanation = Some ''Add the equations to eliminate y and solve for x, then substitute to find y.''\<rparr>"

definition content789 :: ContentResponse where
  "content789 =
     \<lparr>cr_content_id = ''content789'', cr_usmos = [''SCIENCE.PHYS.1''],
      problem = ''A ball is thrown upward with an initial velocity of 20 m/s. How high will it go?'',
      answer = ''20.4 meters'',
      explanation = Some (''Use the formula h = v'' @ [CHR 0xB2] @ ''/(2g) where g = 9.8 m/s'' @
                          [CHR 0xB2] @ ''.'')\<rparr>"

definition mock_data :: "(string \<times> ContentResponse) list" where
  "mock_data =
     [(''MATH.ALG.1'', content123), (''MATH.ALG.2'', content456), (''SCIENCE.PHYS.1'', content789)]"

definition get_mock_content :: "string list \<Rightarrow> ContentResponse list" where
  "get_mock_content us = List.map_filter (map_of mock_data) us"

section \<open>\<^verbatim>\<open>app/services/conversation.py\<close>\<close>

text \<open>
  The body of the loop of \<^verbatim>\<open>_save_thread\<close>: the dict of the message, with its
  timestamp rewritten to the ISO string when the key is there and its value is true.
\<close>

definition dump_message :: "Message \<Rightarrow> error + pyobj" where
  "dump_message message =
     (let msg_dict = model_dump message
      in (case map_of msg_dict ''timestamp'' of
            None \<Rightarrow> Inr (PyDict msg_dict)
          | Some t \<Rightarrow>
              if py_truthy t
              then (case py_isoformat t of
                      Inl e \<Rightarrow> Inl e
                    | Inr s \<Rightarrow> Inr (PyDict (AList.update ''timestamp'' s msg_dict)))
              else Inr (PyDict msg_dict)))"

text \<open>
  \<^verbatim>\<open>_save_thread\<close>: the record is built and saved; an exception of any step is raised
  again by the \<^verbatim>\<open>except\<close> branch, and the database is then as it was. A failure of
  the connection to Redis is not modelled.
\<close>

definition save_thread :: "ConversationThread \<Rightarrow> world \<Rightarrow> (error + unit) \<times> world" where
  "save_thread thread w =
     (case try_map dump_message (messages thread) of
        Inl e \<Rightarrow> (Inl e, w)
      | Inr message_dicts \<Rightarrow>
          (case json_dumps (PyList (map PyStr (usmos thread))) of
             Inl e \<Rightarrow> (Inl e, w)
           | Inr uj \<Rightarrow>
               (case json_dumps (PyList [PyStr (content_id thread)]) of
                  Inl e \<Rightarrow> (Inl e, w)
                | Inr cj \<Rightarrow>
                    (case json_dumps (PyList message_dicts) of
                       Inl e \<Rightarrow> (Inl e, w)
                     | Inr mj \<Rightarrow>
                         (case ConversationThreadRedis_save
                                 \<lparr>r_id = id' thread, r_student_id = student_id thread,
                                  usmos_json = uj, content_ids = cj, r_messages = mj,
                                  r_created_at = isoformat (created_at thread),
                                  r_updated_at = isoformat (updated_at thread),
                                  is_active = True\<rparr>
                                 (redis w) of
                            Inl e \<Rightarrow> (Inl e, w)
                          | Inr db \<Rightarrow> (Inr (), w\<lparr>redis := db\<rparr>))))))"

definition create_thread ::
  "string \<Rightarrow> ContentResponse \<Rightarrow> world \<Rightarrow> (error + ConversationThread) \<times> world" where
  "create_thread sid item w =
     (let (u, w1) = uuid4 w;
          (ca, w2) = datetime_now w1;
          (ua, w3) = datetime_now w2;
          thread = \<lparr>id' = u, student_id = sid, usmos = cr_usmos item,
                    content_id = cr_content_id item, messages = [],
                    created_at = ca, updated_at = ua\<rparr>
      in (case save_thread thread w3 of
            (Inl e, w4) \<Rightarrow> (Inl e, w4)
          | (Inr u, w4) \<Rightarrow> (Inr thread, w4)))"

text \<open>The loop of \<^verbatim>\<open>start_conversation\<close>.\<close>

fun create_threads ::
  "string \<Rightarrow> ContentResponse list \<Rightarrow> world \<Rightarrow> (error + ConversationThread list) \<times> world" where
  "create_threads sid [] w = (Inr [], w)"
| "create_threads sid (item # items) w =
     (case create_thread sid item w of
        (Inl e, w') \<Rightarrow> (Inl e, w')
      | (Inr thread, w') \<Rightarrow>
          (case create_threads sid items w' of
             (Inl e, w'') \<Rightarrow> (Inl e, w'')
           | (Inr ts, w'') \<Rightarrow> (Inr (thread # ts), w'')))"

record StartConversation =
  threads :: "ConversationThread list"
  contents :: "ContentResponse list"

definition start_conversation ::
  "string \<Rightarrow> string list \<Rightarrow> world \<Rightarrow> (error + StartConversation) \<times> world" where
  "start_conversation sid us w =
     (let cs = get_mock_content us
      in if cs = [] then (Inr \<lparr>threads = [], contents = []\<rparr>, w)
         else (case create_threads sid cs w of
                 (Inl e, w') \<Rightarrow> (Inl e, w')
               | (Inr ts, w') \<Rightarrow> (Inr \<lparr>threads = ts, contents = cs\<rparr>, w')))"

text \<open>
  One turn of the loop of \<^verbatim>\<open>get_thread\<close>: \<^verbatim>\<open>message.get("action") is not None\<close>
  chooses the class.
\<close>

definition typed_message :: "pyobj \<Rightarrow> world \<Rightarrow> (error + Message) \<times> world" where
  "typed_message message w =
     (case py_get message ''action'' of
        Inl e \<Rightarrow> (Inl e, w)
      | Inr a \<Rightarrow>
          (case message of
             PyDict kw \<Rightarrow> if a \<noteq> PyNone then StudentMessage_init kw w else TutorMessage_init kw w
           | _ \<Rightarrow> (Inl TypeError, w)))"

fun typed_messages_loop :: "pyobj list \<Rightarrow> world \<Rightarrow> (error + Message list) \<times> world" where
  "typed_messages_loop [] w = (Inr [], w)"
| "typed_messages_loop (message # rest) w =
     (case typed_message message w of
        (Inl e, w') \<Rightarrow> (Inl e, w')
      | (Inr m, w') \<Rightarrow>
          (case typed_messages_loop rest w' of
             (Inl e, w'') \<Rightarrow> (Inl e, w'')
           | (Inr ms, w'') \<Rightarrow> (Inr (m # ms), w'')))"

text \<open>Lines 103 to 111 of \<^verbatim>\<open>get_thread\<close>: the stored messages, typed.\<close>

definition decode_messages :: "ConversationThreadRedis \<Rightarrow> world \<Rightarrow> (error + Message list) \<times> world" where
  "decode_messages thread_redis w =
     (case json_loads (r_messages thread_redis) of
        Inl e \<Rightarrow> (Inl e, w)
      | Inr ms \<Rightarrow>
          (case py_iter ms of
             Inl e \<Rightarrow> (Inl e, w)
           | Inr elems \<Rightarrow> typed_messages_loop elems w))"

text \<open>Lines 113 to 125 of \<^verbatim>\<open>get_thread\<close>: the content id and the thread.\<close>

definition decode_header :: "ConversationThreadRedis \<Rightarrow> Message list \<Rightarrow> error + ConversationThread" where
  "decode_header thread_redis typed_messages =
     (case json_loads (content_ids thread_redis) of
        Inl e \<Rightarrow> Inl e
      | Inr cids \<Rightarrow>
          (case (if py_truthy cids then py_getitem0 cids else Inr PyNone) of
             Inl e \<Rightarrow> Inl e
           | Inr cid \<Rightarrow>
               (case json_loads (usmos_json thread_redis) of
                  Inl e \<Rightarrow> Inl e
                | Inr us \<Rightarrow>
                    (case fromisoformat (r_created_at thread_redis) of
                       Inl e \<Rightarrow> Inl e
                     | Inr ca \<Rightarrow>
                         (case fromisoformat (r_updated_at thread_redis) of
                            Inl e \<Rightarrow> Inl e
                          | Inr ua \<Rightarrow>
                              ConversationThread_init (r_id thread_redis)
                                (r_student_id thread_redis) us cid typed_messages ca ua)))))"

text \<open>
  \<^verbatim>\<open>get_thread\<close>: \<open>None\<close> when the record is absent, and \<open>None\<close> again from the
  \<^verbatim>\<open>except Exception\<close> branch when anything in the \<^verbatim>\<open>try\<close> block raises.
\<close>

definition get_thread :: "string \<Rightarrow> world \<Rightarrow> ConversationThread option \<times> world" where
  "get_thread thread_id w =
     (case ConversationThreadRedis_get (redis w) thread_id of
        None \<Rightarrow> (None, w)
      | Some thread_redis \<Rightarrow>
          (case decode_messages thread_redis w of
             (Inl e, w') \<Rightarrow> (None, w')
           | (Inr typed_messages, w') \<Rightarrow>
               (case decode_header thread_redis typed_messages of
                  Inl e \<Rightarrow> (None, w')
                | Inr thread \<Rightarrow> (Some thread, w'))))"

definition add_message :: "Message \<Rightarrow> world \<Rightarrow> (error + ConversationThread) \<times> world" where
  "add_message message w =
     (case get_thread (conversation_id message) w of
        (None, w1) \<Rightarrow>
          (Inl (ValueError (''Thread '' @ conversation_id message @ '' not found'')), w1)
      | (Some thread, w1) \<Rightarrow>
          (let (now, w2) = datetime_now w1;
               thread' = thread\<lparr>messages := messages thread @ [message], updated_at := now\<rparr>
           in (case save_thread thread' w2 of
                 (Inl e, w3) \<Rightarrow> (Inl e, w3)
               | (Inr u, w3) \<Rightarrow> (Inr thread', w3))))"

definition mock_content :: "(string \<times> ContentResponse) list" where
  "mock_content =
     [(''content123'', content123), (''content456'', content456), (''content789'', content789)]"

definition get_content :: "string \<Rightarrow> ContentResponse option" where
  "get_content cid = map_of mock_content cid"

definition regenerate_tutor_response ::
  "TutorService \<Rightarrow> string \<Rightarrow> world \<Rightarrow> (error + Message) \<times> world" where
  "regenerate_tutor_response svc thread_id w =
     (case get_thread thread_id w of
        (None, w1) \<Rightarrow> (Inl (ValueError (''Thread '' @ thread_id @ '' not found'')), w1)
      | (Some thread, w1) \<Rightarrow>
          (case get_content (content_id thread) of
             None \<Rightarrow> (Inl (ValueError (''Content '' @ content_id thread @ '' not found'')), w1)
           | Some item \<Rightarrow>
               (case (if messages thread \<noteq> [] \<and> is_TutorMessage (last (messages thread))
                      then (let thread' = thread\<lparr>messages := butlast (messages thread)\<rparr>
                            in (case save_thread thread' w1 of
                                  (Inl e, w2) \<Rightarrow> (Inl e, w2)
                                | (Inr u, w2) \<Rightarrow> (Inr thread', w2)))
                      else (Inr thread, w1)) of
                  (Inl e, w2) \<Rightarrow> (Inl e, w2)
                | (Inr thread2, w2) \<Rightarrow>
                    (let (response, w3) = generate_response svc thread2 item w2
                     in (case add_message response w3 of
                           (Inl e, w4) \<Rightarrow> (Inl e, w4)
                         | (Inr t, w4) \<Rightarrow> (Inr response, w4))))))"

text \<open>\<^verbatim>\<open>message.action\<close>: only a \<^verbatim>\<open>StudentMessage\<close> has the attribute.\<close>

fun py_action :: "Message \<Rightarrow> error + Action" where
  "py_action (StudentMessage cid c a t) = Inr a"
| "py_action (TutorMessage cid c fb t) = Inl AttributeError"

definition handle_student_action ::
  "TutorService \<Rightarrow> Message \<Rightarrow> world \<Rightarrow> (error + Message) \<times> world" where
  "handle_student_action svc message w =
     (case get_thread (conversation_id message) w of
        (None, w1) \<Rightarrow>
          (Inl (ValueError (''Thread '' @ conversation_id message @ '' not found'')), w1)
      | (Some thread0, w1) \<Rightarrow>
          (case get_content (content_id thread0) of
             None \<Rightarrow> (Inl (ValueError (''Content '' @ content_id thread0 @ '' not found'')), w1)
           | Some item \<Rightarrow>
               (case add_message message w1 of
                  (Inl e, w2) \<Rightarrow> (Inl e, w2)
                | (Inr thread, w2) \<Rightarrow>
                    (case py_action message of
                       Inl e \<Rightarrow> (Inl e, w2)
                     | Inr a \<Rightarrow>
                         if a = Regenerate
                         then regenerate_tutor_response svc (conversation_id message) w2
                         else
                           (let (response, w3) = generate_response svc thread item w2
                            in (case add_message response w3 of
                                  (Inl e, w4) \<Rightarrow> (Inl e, w4)
                                | (Inr t, w4) \<Rightarrow> (Inr response, w4)))))))"

section \<open>The record of a thread, in closed form\<close>

text \<open>
  The dict \<^verbatim>\<open>_save_thread\<close> builds for a message, and the record it builds for a
  thread and hands to \<^verbatim>\<open>save()\<close>.
\<close>

fun message_dict :: "Message \<Rightarrow> pyobj" where
  "message_dict (StudentMessage cid c a t) =
     PyDict [(''conversation_id'', PyStr cid), (''content'', PyStr c),
             (''action'', PyStr (action_str a)), (''timestamp'', PyStr (isoformat t))]"
| "message_dict (TutorMessage cid c fb t) =
     PyDict [(''conversation_id'', PyStr cid), (''content'', PyStr c),
             (''feedback'', PyDict (map (\<lambda>kv. (fst kv, PyFloat (snd kv))) fb)),
             (''timestamp'', PyStr (isoformat t))]"

definition thread_record :: "ConversationThread \<Rightarrow> ConversationThreadRedis" where
  "thread_record t =
     \<lparr>r_id = id' t, r_student_id = student_id t,
      usmos_json = JsonText (PyList (map PyStr (usmos t))),
      content_ids = JsonText (PyList [PyStr (content_id t)]),
      r_messages = JsonText (PyList (map message_dict (messages t))),
      r_created_at = isoformat (created_at t),
      r_updated_at = isoformat (updated_at t),
      is_active = True\<rparr>"

text \<open>The instants of a thread are values a \<^verbatim>\<open>datetime\<close> can hold.\<close>

definition valid_thread :: "ConversationThread \<Rightarrow> bool" where
  "valid_thread t =
     (valid_datetime (created_at t) \<and> valid_datetime (updated_at t) \<and>
      list_all (\<lambda>m. valid_datetime (timestamp m)) (messages t))"

text \<open>
  The discriminant in the words of the specification: the field mapping of a stored
  message contains a non-null \<^verbatim>\<open>action\<close>.
\<close>

definition has_action :: "pyobj \<Rightarrow> bool" where
  "has_action message =
     (case message of
        PyDict kw \<Rightarrow> (case map_of kw ''action'' of None \<Rightarrow> False | Some v \<Rightarrow> v \<noteq> PyNone)
      | _ \<Rightarrow> False)"

text \<open>
  The decode failures the specification lists. A stored message is bad when its action
  is not null and not one of the four values, or its timestamp is a string that does not
  parse; a record fails to decode when one of its three JSON fields is malformed, one of
  its two timestamps does not parse, or one of its messages is bad.
\<close>

definition bad_message :: "pyobj \<Rightarrow> bool" where
  "bad_message message =
     (case message of
        PyDict kw \<Rightarrow>
          (case map_of kw ''action'' of
             None \<Rightarrow> False
           | Some v \<Rightarrow> v \<noteq> PyNone \<and> isl (validate_action v)) \<or>
          (case map_of kw ''timestamp'' of
             Some (PyStr s) \<Rightarrow> isl (fromisoformat s)
           | _ \<Rightarrow> False)
      | _ \<Rightarrow> False)"

definition decode_failure :: "ConversationThreadRedis \<Rightarrow> bool" where
  "decode_failure r =
     (isl (json_loads (usmos_json r)) \<or> isl (json_loads (content_ids r)) \<or>
      isl (json_loads (r_messages r)) \<or>
      isl (fromisoformat (r_created_at r)) \<or> isl (fromisoformat (r_updated_at r)) \<or>
      (case json_loads (r_messages r) of
         Inl e \<Rightarrow> False
       | Inr stored \<Rightarrow>
           (case py_iter stored of Inl e \<Rightarrow> False | Inr elems \<Rightarrow> list_ex bad_message elems)))"

section \<open>Example values\<close>

text \<open>
  Concrete inputs, on which the theorems below are instantiated: two instants, a world
  with an empty database and a service without language model, the thread of the test
  suite with one message of each kind, and a thread without messages.
\<close>

definition noon :: datetime where
  "noon = \<lparr>year = 2025, month = 5, day = 22, hour = 12, minute = 0, second = 0,
           microsecond = 0, tzinfo = Some 0\<rparr>"

definition later :: datetime where
  "later = \<lparr>year = 2025, month = 5, day = 22, hour = 12, minute = 1, second = 30,
            microsecond = 250000, tzinfo = Some 0\<rparr>"

definition empty_world :: world where
  "empty_world =
     \<lparr>redis = [], clock = (\<lambda>n. later), ticks = 0, uuids = (\<lambda>n. ''thread-'' @ zfill 4 n),
      uuid_calls = 0, lm_replies = (\<lambda>n. None), lm_calls = 0\<rparr>"

definition template_service :: TutorService where
  "template_service = \<lparr>dspy_configured = False\<rparr>"

definition conv123 :: ConversationThread where
  "conv123 =
     \<lparr>id' = ''conv123'', student_id = ''student123'', usmos = [''MATH.ALG.1''],
      content_id = ''content123'',
      messages =
        [StudentMessage ''conv123'' ''How do I solve x + 5 = 10?'' Question noon,
         TutorMessage ''conv123'' ''To solve x + 5 = 10, subtract 5 from both sides.''
           [(''clarity'', 0.9)] later],
      created_at = noon, updated_at = later\<rparr>"

definition fresh_thread :: ConversationThread where
  "fresh_thread =
     \<lparr>id' = ''conv456'', student_id = ''student123'', usmos = [''MATH.ALG.1''],
      content_id = ''content123'', messages = [], created_at = noon, updated_at = noon\<rparr>"

text \<open>
  Databases: one holding the record \<^verbatim>\<open>_save_thread\<close> builds for the thread of the test suite,
  one holding a record whose message log is not JSON, one holding a record that lists no
  content id, and one holding a record with a message whose action is unknown.
\<close>

definition stored_world :: world where
  "stored_world = empty_world\<lparr>redis := [thread_record conv123]\<rparr>"

definition corrupt_record :: ConversationThreadRedis where
  "corrupt_record = (thread_record fresh_thread)\<lparr>r_messages := NotJson ''{not json''\<rparr>"

definition corrupt_world :: world where
  "corrupt_world = empty_world\<lparr>redis := [corrupt_record]\<rparr>"

definition no_content_record :: ConversationThreadRedis where
  "no_content_record = (thread_record fresh_thread)\<lparr>content_ids := JsonText (PyList [])\<rparr>"

definition no_content_world :: world where
  "no_content_world = empty_world\<lparr>redis := [no_content_record]\<rparr>"

definition bogus_action_record :: ConversationThreadRedis where
  "bogus_action_record =
     (thread_record fresh_thread)
       \<lparr>r_messages :=
          JsonText (PyList [PyDict [(''conversation_id'', PyStr ''conv456''),
                                    (''content'', PyStr ''hello''),
                                    (''action'', PyStr ''bogus''),
                                    (''timestamp'', PyStr ''2025-05-22T12:00:00+00:00'')]])\<rparr>"

definition bogus_action_world :: world where
  "bogus_action_world = empty_world\<lparr>redis := [bogus_action_record]\<rparr>"

text \<open>
  A thread whose last message is a student message, the database holding it, and a
  student message that asks to regenerate in the thread of the test suite.
\<close>

definition asked_thread :: ConversationThread where
  "asked_thread =
     \<lparr>id' = ''conv789'', student_id = ''student123'', usmos = [''MATH.ALG.1''],
      content_id = ''content123'',
      messages = [StudentMessage ''conv789'' ''How do I solve x + 5 = 10?'' Question noon],
      created_at = noon, updated_at = noon\<rparr>"

definition asked_world :: world where
  "asked_world = empty_world\<lparr>redis := [thread_record asked_thread]\<rparr>"

definition again :: Message where
  "again = StudentMessage ''conv123'' ''Please explain it again.'' Regenerate later"

section \<open>The library model: ISO strings\<close>

lemma digit_val_digit_char: "n < 10 \<Longrightarrow> digit_val (digit_char n) = Some n"
  by (simp add: digit_val_def digit_char_def)

lemma length_zfill [simp]: "length (zfill w n) = w"
  by (induction w arbitrary: n) auto

lemma digits_val_snoc:
  "digits_val acc (cs @ [c]) =
     (case digits_val acc cs of
        None \<Rightarrow> None
      | Some v \<Rightarrow> (case digit_val c of None \<Rightarrow> None | Some u \<Rightarrow> Some (10 * v + u)))"
  by (induction cs arbitrary: acc) (auto split: option.splits)

lemma digits_val_zfill: "n < 10 ^ w \<Longrightarrow> digits_val 0 (zfill w n) = Some n"
proof (induction w arbitrary: n)
  case 0
  then show ?case by simp
next
  case (Suc w)
  have "n div 10 < 10 ^ w"
    using Suc.prems by (simp add: less_mult_imp_div_less mult.commute)
  then have "digits_val 0 (zfill w (n div 10)) = Some (n div 10)"
    by (rule Suc.IH)
  then show ?case
    by (simp add: digits_val_snoc digit_val_digit_char)
qed

lemma parse_utcoffset_str:
  assumes "case tz of None \<Rightarrow> True | Some off \<Rightarrow> - 1440 < off \<and> off < (1440::int)"
  shows "parse_utcoffset (utcoffset_str tz) = Inr tz"
proof (cases tz)
  case None
  then show ?thesis by (simp add: parse_utcoffset_def utcoffset_str_def)
next
  case (Some off)
  let ?a = "nat \<bar>off\<bar>"
  have a: "?a < 1440" using assms Some by auto
  have hh: "digits_val 0 (zfill 2 (?a div 60)) = Some (?a div 60)"
    using a by (intro digits_val_zfill) simp
  have mm: "digits_val 0 (zfill 2 (?a mod 60)) = Some (?a mod 60)"
    by (intro digits_val_zfill) simp
  have h24: "?a div 60 < 24" using a by simp
  have recompose: "int (?a div 60 * 60 + ?a mod 60) = \<bar>off\<bar>" by simp
  have nz: "utcoffset_str tz \<noteq> ''Z''"
  proof
    assume "utcoffset_str tz = ''Z''"
    then have "length (utcoffset_str tz) = 1" by simp
    then show False using Some by (simp add: utcoffset_str_def)
  qed
  show ?thesis
    using hh mm h24 recompose Some nz
    by (simp add: parse_utcoffset_def utcoffset_str_def nth_append)
qed

lemma parse_fraction_zfill:
  assumes "us < 1000000" and "rest = [] \<or> hd rest \<noteq> CHR ''.''"
  shows "parse_fraction ((if us \<noteq> 0 then ''.'' @ zfill 6 us else []) @ rest) = Inr (us, rest)"
proof (cases "us = 0")
  case True
  then show ?thesis using assms(2) by (auto simp: parse_fraction_def)
next
  case False
  have "digits_val 0 (zfill 6 us) = Some us"
    using assms(1) by (intro digits_val_zfill) simp
  then show ?thesis using False by (simp add: parse_fraction_def)
qed

lemma utcoffset_str_no_dot: "utcoffset_str tz = [] \<or> hd (utcoffset_str tz) \<noteq> CHR ''.''"
  by (cases tz) (auto simp: utcoffset_str_def)

text \<open>\<^verbatim>\<open>fromisoformat\<close> reads back what \<^verbatim>\<open>isoformat\<close> writes.\<close>

lemma fromisoformat_isoformat:
  assumes "valid_datetime d"
  shows "fromisoformat (isoformat d) = Inr d"
proof -
  let ?tail = "(if microsecond d \<noteq> 0 then ''.'' @ zfill 6 (microsecond d) else []) @
               utcoffset_str (tzinfo d)"
  have y: "digits_val 0 (zfill 4 (year d)) = Some (year d)"
    using assms by (intro digits_val_zfill) (simp add: valid_datetime_def)
  have mo: "digits_val 0 (zfill 2 (month d)) = Some (month d)"
    using assms by (intro digits_val_zfill) (simp add: valid_datetime_def)
  have dd: "digits_val 0 (zfill 2 (day d)) = Some (day d)"
    using assms
    by (intro digits_val_zfill) (auto simp: valid_datetime_def days_in_month_def split: if_splits)
  have h: "digits_val 0 (zfill 2 (hour d)) = Some (hour d)"
    using assms by (intro digits_val_zfill) (simp add: valid_datetime_def)
  have mi: "digits_val 0 (zfill 2 (minute d)) = Some (minute d)"
    using assms by (intro digits_val_zfill) (simp add: valid_datetime_def)
  have se: "digits_val 0 (zfill 2 (second d)) = Some (second d)"
    using assms by (intro digits_val_zfill) (simp add: valid_datetime_def)
  have frac: "parse_fraction ?tail = Inr (microsecond d, utcoffset_str (tzinfo d))"
    using assms utcoffset_str_no_dot [of "tzinfo d"]
    by (intro parse_fraction_zfill) (simp_all add: valid_datetime_def)
  have tz: "parse_utcoffset (utcoffset_str (tzinfo d)) = Inr (tzinfo d)"
    using assms by (intro parse_utcoffset_str) (simp add: valid_datetime_def)
  have shape: "isoformat d =
      zfill 4 (year d) @ ''-'' @ zfill 2 (month d) @ ''-'' @ zfill 2 (day d) @ ''T'' @
      zfill 2 (hour d) @ '':'' @ zfill 2 (minute d) @ '':'' @ zfill 2 (second d) @ ?tail"
    by (simp add: isoformat_def)
  have rng: "1 \<le> year d \<and> 1 \<le> month d \<and> month d \<le> 12 \<and> 1 \<le> day d \<and>
      day d \<le> days_in_month (year d) (month d) \<and> hour d < 24 \<and> minute d < 60 \<and> second d < 60"
    using assms by (simp add: valid_datetime_def)
  show ?thesis
    unfolding shape fromisoformat_def
    using y mo dd h mi se frac tz rng
    by (simp add: nth_append)
qed

section \<open>The response generator without language model\<close>

lemma generate_response_unconfigured:
  assumes "\<not> dspy_configured svc"
  shows "generate_response svc thread item w =
     (case find is_StudentMessage (rev (messages thread)) of
        None \<Rightarrow>
          (TutorMessage (id' thread)
             (''Let's discuss this problem: '' @ problem item @
              ''. How would you approach solving it?'') [] (clock w (ticks w)),
           w\<lparr>ticks := Suc (ticks w)\<rparr>)
      | Some last_message \<Rightarrow>
          (TutorMessage (id' thread) (fallback_response last_message item)
             [(''clarity'', 0.9), (''helpfulness'', 0.85), (''engagement'', 0.8)]
             (clock w (ticks w)),
           w\<lparr>ticks := Suc (ticks w)\<rparr>))"
  using assms
  by (simp add: generate_response_def datetime_now_def generate_feedback_def split: option.splits)

lemma find_rev_None: "find P (rev xs) = None \<longleftrightarrow> \<not> (\<exists>x \<in> set xs. P x)"
  by (auto simp: find_None_iff)

text \<open>
  Claim C8. For the content with problem \<^verbatim>\<open>Solve for x: x + 5 = 10\<close> and answer
  \<^verbatim>\<open>x = 5\<close>, and a thread whose last student message has the action \<^verbatim>\<open>question\<close>, the
  reply of the generator without language model contains the problem and the answer
  literally.
\<close>

theorem fallback_question_literal:
  assumes "\<not> dspy_configured svc"
    and "problem item = ''Solve for x: x + 5 = 10''"
    and "answer item = ''x = 5''"
    and "find is_StudentMessage (rev (messages thread)) = Some last_message"
    and "action last_message = Question"
  shows "sublist ''Solve for x: x + 5 = 10'' (content (fst (generate_response svc thread item w))) \<and>
         sublist ''x = 5'' (content (fst (generate_response svc thread item w)))"
proof -
  let ?reply = "content (fst (generate_response svc thread item w))"
  have reply: "?reply =
      ''That's a good question about '' @ [CHR 0x27] @ problem item @ [CHR 0x27] @
      ''. The answer is '' @ [CHR 0x27] @ answer item @ [CHR 0x27] @ ''. Does that make sense?''"
    using assms(4,5)
    by (simp add: generate_response_unconfigured [OF assms(1)] fallback_response_def)
  have p: "sublist (problem item) ?reply"
    unfolding reply sublist_def
    by (intro exI [of _ "''That's a good question about '' @ [CHR 0x27]"]
              exI [of _ "[CHR 0x27] @ ''. The answer is '' @ [CHR 0x27] @ answer item @
                         [CHR 0x27] @ ''. Does that make sense?''"]) simp
  have a: "sublist (answer item) ?reply"
    unfolding reply sublist_def
    by (intro exI [of _ "''That's a good question about '' @ [CHR 0x27] @ problem item @
                         [CHR 0x27] @ ''. The answer is '' @ [CHR 0x27]"]
              exI [of _ "[CHR 0x27] @ ''. Does that make sense?''"]) simp
  show ?thesis using p a assms(2,3) by simp
qed

theorem fallback_question_literal_witness:
  "\<not> dspy_configured template_service \<and>
   problem content123 = ''Solve for x: x + 5 = 10'' \<and>
   answer content123 = ''x = 5'' \<and>
   find is_StudentMessage (rev (messages conv123)) =
     Some (StudentMessage ''conv123'' ''How do I solve x + 5 = 10?'' Question noon) \<and>
   action (StudentMessage ''conv123'' ''How do I solve x + 5 = 10?'' Question noon) = Question \<and>
   sublist ''Solve for x: x + 5 = 10''
     (content (fst (generate_response template_service conv123 content123 empty_world))) \<and>
   sublist ''x = 5''
     (content (fst (generate_response template_service conv123 content123 empty_world)))"
proof -
  have h1: "\<not> dspy_configured template_service"
    by (simp add: template_service_def)
  have h2: "problem content123 = ''Solve for x: x + 5 = 10''"
    by (simp add: content123_def)
  have h3: "answer content123 = ''x = 5''"
    by (simp add: content123_def)
  have h4: "find is_StudentMessage (rev (messages conv123)) =
      Some (StudentMessage ''conv123'' ''How do I solve x + 5 = 10?'' Question noon)"
    by (simp add: conv123_def)
  have h5: "action (StudentMessage ''conv123'' ''How do I solve x + 5 = 10?'' Question noon) = Question"
    by simp
  show ?thesis
    using h1 h2 h3 h4 h5 fallback_question_literal [OF h1 h2 h3 h4 h5, of empty_world]
    by blast
qed

text \<open>
  Claim C9. The generator without language model always returns a tutor message (it has
  no raising path), and two invocations on the same thread and content, whatever the
  clocks, give the same reply text and the same feedback.
\<close>

theorem fallback_deterministic:
  assumes "\<not> dspy_configured svc"
  shows "(\<exists>m w'. generate_response svc thread item w1 = (m, w') \<and> is_TutorMessage m) \<and>
         content (fst (generate_response svc thread item w1)) =
           content (fst (generate_response svc thread item w2)) \<and>
         feedback (fst (generate_response svc thread item w1)) =
           feedback (fst (generate_response svc thread item w2))"
  by (simp add: generate_response_unconfigured [OF assms] split: option.splits)

theorem fallback_deterministic_witness:
  "\<not> dspy_configured template_service \<and>
   (\<exists>m w'. generate_response template_service conv123 content123 empty_world = (m, w') \<and>
      is_TutorMessage m) \<and>
   content (fst (generate_response template_service conv123 content123 empty_world)) =
     content (fst (generate_response template_service conv123 content123
                     (empty_world\<lparr>clock := \<lambda>n. noon, ticks := 7\<rparr>))) \<and>
   feedback (fst (generate_response template_service conv123 content123 empty_world)) =
     feedback (fst (generate_response template_service conv123 content123
                      (empty_world\<lparr>clock := \<lambda>n. noon, ticks := 7\<rparr>)))"
proof -
  have h: "\<not> dspy_configured template_service"
    by (simp add: template_service_def)
  show ?thesis
    using h fallback_deterministic [OF h, of conv123 content123 empty_world
        "empty_world\<lparr>clock := \<lambda>n. noon, ticks := 7\<rparr>"]
    by blast
qed

text \<open>
  Claim C10. Without language model, a thread with no student message gets the
  introduction, a tutor message with empty feedback; a thread with a student message gets
  a tutor message with the feedback \<^verbatim>\<open>{clarity: 0.9, helpfulness: 0.85, engagement: 0.8}\<close>.
\<close>

theorem fallback_feedback:
  assumes "\<not> dspy_configured svc"
  shows "(\<not> (\<exists>m \<in> set (messages thread). is_StudentMessage m) \<longrightarrow>
            fst (generate_response svc thread item w) =
              TutorMessage (id' thread)
                (''Let's discuss this problem: '' @ problem item @
                 ''. How would you approach solving it?'') [] (clock w (ticks w))) \<and>
         ((\<exists>m \<in> set (messages thread). is_StudentMessage m) \<longrightarrow>
            is_TutorMessage (fst (generate_response svc thread item w)) \<and>
            feedback (fst (generate_response svc thread item w)) =
              [(''clarity'', 0.9), (''helpfulness'', 0.85), (''engagement'', 0.8)])"
proof (cases "find is_StudentMessage (rev (messages thread))")
  case None
  then have "\<not> (\<exists>m \<in> set (messages thread). is_StudentMessage m)"
    by (simp add: find_rev_None)
  then show ?thesis
    using None by (simp add: generate_response_unconfigured [OF assms])
next
  case (Some m)
  then have "\<exists>m \<in> set (messages thread). is_StudentMessage m"
    using find_rev_None [of is_StudentMessage "messages thread"] by auto
  then show ?thesis
    using Some by (simp add: generate_response_unconfigured [OF assms])
qed

theorem fallback_feedback_witness:
  "\<not> dspy_configured template_service \<and>
   fst (generate_response template_service fresh_thread content123 empty_world) =
     TutorMessage ''conv456''
       (''Let's discuss this problem: '' @ ''Solve for x: x + 5 = 10'' @
        ''. How would you approach solving it?'') [] later \<and>
   is_TutorMessage (fst (generate_response template_service conv123 content123 empty_world)) \<and>
   feedback (fst (generate_response template_service conv123 content123 empty_world)) =
     [(''clarity'', 0.9), (''helpfulness'', 0.85), (''engagement'', 0.8)]"
proof -
  have h: "\<not> dspy_configured template_service"
    by (simp add: template_service_def)
  have none: "\<not> (\<exists>m \<in> set (messages fresh_thread). is_StudentMessage m)"
    by (simp add: fresh_thread_def)
  have some: "\<exists>m \<in> set (messages conv123). is_StudentMessage m"
    by (simp add: conv123_def)
  have a: "fst (generate_response template_service fresh_thread content123 empty_world) =
      TutorMessage (id' fresh_thread)
        (''Let's discuss this problem: '' @ problem content123 @
         ''. How would you approach solving it?'') [] (clock empty_world (ticks empty_world))"
    using none fallback_feedback [OF h, of fresh_thread content123 empty_world] by blast
  have b: "is_TutorMessage (fst (generate_response template_service conv123 content123 empty_world)) \<and>
      feedback (fst (generate_response template_service conv123 content123 empty_world)) =
        [(''clarity'', 0.9), (''helpfulness'', 0.85), (''engagement'', 0.8)]"
    using some fallback_feedback [OF h, of conv123 content123 empty_world] by blast
  have ids: "id' fresh_thread = ''conv456''" "problem content123 = ''Solve for x: x + 5 = 10''"
    "clock empty_world (ticks empty_world) = later"
    by (simp_all add: fresh_thread_def content123_def empty_world_def)
  show ?thesis
    using h a b unfolding ids by simp
qed

section \<open>Saving a thread, and the record of a thread\<close>

lemma try_map_Inr: "(\<And>x. x \<in> set xs \<Longrightarrow> f x = Inr (g x)) \<Longrightarrow> try_map f xs = Inr (map g xs)"
  by (induction xs) auto

lemma dump_message_eq: "dump_message m = Inr (message_dict m)"
  by (cases m) (simp_all add: dump_message_def)

lemma json_serializable_message_dict: "json_serializable (message_dict m)"
  by (cases m) (simp_all add: list_all_iff)

text \<open>\<open>save_thread\<close> raises on every thread, at the \<^verbatim>\<open>bool\<close> of \<^verbatim>\<open>is_active\<close>.\<close>

lemma save_thread_raises: "save_thread t w = (Inl DataError, w)"
proof -
  have ms: "try_map dump_message (messages t) = Inr (map message_dict (messages t))"
    by (rule try_map_Inr) (rule dump_message_eq)
  have u: "json_dumps (PyList (map PyStr (usmos t))) = Inr (JsonText (PyList (map PyStr (usmos t))))"
    by (simp add: json_dumps_def list_all_iff)
  have c: "json_dumps (PyList [PyStr (content_id t)]) = Inr (JsonText (PyList [PyStr (content_id t)]))"
    by (simp add: json_dumps_def)
  have m: "json_dumps (PyList (map message_dict (messages t))) =
      Inr (JsonText (PyList (map message_dict (messages t))))"
    by (simp add: json_dumps_def list_all_iff json_serializable_message_dict)
  show ?thesis
    by (simp add: save_thread_def ms u c m ConversationThreadRedis_save_def)
qed

text \<open>The record \<open>save_thread\<close> builds, if a database holds it, is loaded as the thread.\<close>

lemma get_Some_id: "ConversationThreadRedis_get db k = Some r \<Longrightarrow> r_id r = k"
  by (auto simp: ConversationThreadRedis_get_def find_Some_iff)

lemma validate_action_str: "validate_action (PyStr (action_str a)) = Inr a"
  by (cases a) simp_all

lemma validate_feedback_dump:
  "validate_feedback (PyDict (map (\<lambda>kv. (fst kv, PyFloat (snd kv))) fb)) = Inr fb"
  by (induction fb) (auto simp: validate_item_def)

lemma typed_message_dict:
  assumes "valid_datetime (timestamp m)"
  shows "typed_message (message_dict m) w = (Inr m, w)"
proof (cases m)
  case (StudentMessage cid c a t)
  then show ?thesis
    using assms
    by (simp add: typed_message_def StudentMessage_init_def timestamp_field_def required_field_def
        validate_action_str fromisoformat_isoformat del: validate_action.simps)
next
  case (TutorMessage cid c fb t)
  then show ?thesis
    using assms
    by (simp add: typed_message_def TutorMessage_init_def timestamp_field_def required_field_def
        validate_feedback_dump fromisoformat_isoformat del: validate_feedback.simps)
qed

lemma typed_messages_loop_dicts:
  "list_all (\<lambda>m. valid_datetime (timestamp m)) ms \<Longrightarrow>
   typed_messages_loop (map message_dict ms) w = (Inr ms, w)"
  by (induction ms) (simp_all add: typed_message_dict)

lemma try_map_validate_str: "try_map validate_str (map PyStr xs) = Inr xs"
  by (induction xs) auto

lemma decode_thread_record:
  assumes "valid_thread t"
  shows "decode_messages (thread_record t) w = (Inr (messages t), w)"
    and "decode_header (thread_record t) (messages t) = Inr t"
proof -
  show "decode_messages (thread_record t) w = (Inr (messages t), w)"
    using assms
    by (simp add: decode_messages_def thread_record_def valid_thread_def typed_messages_loop_dicts
        list_all_iff json_serializable_message_dict)
  show "decode_header (thread_record t) (messages t) = Inr t"
    using assms
    by (simp add: decode_header_def thread_record_def valid_thread_def fromisoformat_isoformat
        ConversationThread_init_def try_map_validate_str list_all_iff)
qed

lemma get_thread_stored:
  assumes "ConversationThreadRedis_get (redis w) (id' t) = Some (thread_record t)"
    and "valid_thread t"
  shows "get_thread (id' t) w = (Some t, w)"
  using assms by (simp add: get_thread_def decode_thread_record)

lemma valid_noon: "valid_datetime noon"
  by (simp add: valid_datetime_def noon_def days_in_month_def)

lemma valid_later: "valid_datetime later"
  by (simp add: valid_datetime_def later_def days_in_month_def)

lemma valid_conv123: "valid_thread conv123"
  by (simp add: valid_thread_def conv123_def valid_noon valid_later)

lemma valid_fresh_thread: "valid_thread fresh_thread"
  by (simp add: valid_thread_def fresh_thread_def valid_noon)

text \<open>
  Claim C1. Saving the thread of the test suite, which has one message of each class,
  into an empty database raises \<^verbatim>\<open>DataError\<close> and leaves the database empty, and
  loading the thread by its id then returns \<open>None\<close>: the thread is not reproduced.
\<close>

theorem save_raises_nothing_loaded:
  "map is_StudentMessage (messages conv123) = [True, False] \<and>
   save_thread conv123 empty_world = (Inl DataError, empty_world) \<and>
   redis (snd (save_thread conv123 empty_world)) = [] \<and>
   get_thread ''conv123'' (snd (save_thread conv123 empty_world)) =
     (None, snd (save_thread conv123 empty_world))"
proof -
  have k: "map is_StudentMessage (messages conv123) = [True, False]"
    by (simp add: conv123_def)
  have e: "redis empty_world = []"
    by (simp add: empty_world_def)
  have g: "get_thread ''conv123'' empty_world = (None, empty_world)"
    by (simp add: get_thread_def e ConversationThreadRedis_get_def)
  show ?thesis
    using k e g by (simp add: save_thread_raises)
qed

section \<open>Loading a stored record\<close>

lemma StudentMessage_init_kind:
  "StudentMessage_init kw w = (Inr m, w') \<Longrightarrow> is_StudentMessage m"
  by (auto simp: StudentMessage_init_def split: prod.splits sum.splits)

lemma TutorMessage_init_kind:
  "TutorMessage_init kw w = (Inr m, w') \<Longrightarrow> is_TutorMessage m"
  by (auto simp: TutorMessage_init_def split: prod.splits sum.splits)

lemma typed_message_kind:
  assumes "typed_message message w = (Inr m, w')"
  shows "is_StudentMessage m = has_action message" and "is_TutorMessage m = (\<not> has_action message)"
proof -
  obtain kw where kw: "message = PyDict kw"
    using assms by (cases message) (simp_all add: typed_message_def)
  show "is_StudentMessage m = has_action message"
  proof (cases "has_action message")
    case True
    then have "StudentMessage_init kw w = (Inr m, w')"
      using assms kw by (auto simp: typed_message_def has_action_def split: option.splits)
    then show ?thesis using True StudentMessage_init_kind by simp
  next
    case False
    then have "TutorMessage_init kw w = (Inr m, w')"
      using assms kw by (auto simp: typed_message_def has_action_def split: option.splits)
    then have "is_TutorMessage m" by (rule TutorMessage_init_kind)
    then show ?thesis using False by (cases m) simp_all
  qed
  then show "is_TutorMessage m = (\<not> has_action message)"
    by (cases m) simp_all
qed

lemma typed_messages_loop_kinds:
  "typed_messages_loop elems w = (Inr ms, w') \<Longrightarrow>
   list_all2 (\<lambda>message m. is_StudentMessage m = has_action message \<and>
                           is_TutorMessage m = (\<not> has_action message)) elems ms"
proof (induction elems arbitrary: w ms)
  case Nil
  then show ?case by simp
next
  case (Cons message rest)
  from Cons.prems obtain m w1 ms' where
    m: "typed_message message w = (Inr m, w1)" and
    rest: "typed_messages_loop rest w1 = (Inr ms', w')" and
    ms: "ms = m # ms'"
    by (auto split: prod.splits sum.splits)
  show ?case
    using typed_message_kind [OF m] Cons.IH [OF rest] ms by simp
qed

lemma get_thread_Some:
  assumes "get_thread thread_id w = (Some thread, w')"
  obtains thread_redis where
    "ConversationThreadRedis_get (redis w) thread_id = Some thread_redis"
    "decode_messages thread_redis w = (Inr (messages thread), w')"
    "decode_header thread_redis (messages thread) = Inr thread"
proof -
  from assms obtain thread_redis ms where
    r: "ConversationThreadRedis_get (redis w) thread_id = Some thread_redis" and
    m: "decode_messages thread_redis w = (Inr ms, w')" and
    h: "decode_header thread_redis ms = Inr thread"
    by (auto simp: get_thread_def split: option.splits prod.splits sum.splits)
  from h have "messages thread = ms"
    by (auto simp: decode_header_def ConversationThread_init_def split: sum.splits if_splits)
  with r m h that show ?thesis by simp
qed

text \<open>
  Claim C2. When \<open>get_thread\<close> returns a thread, the stored message log decoded to a
  sequence of field mappings, and the messages of the thread correspond to them one by
  one: a message is a \<^verbatim>\<open>StudentMessage\<close> exactly when its mapping contains a non-null
  \<^verbatim>\<open>action\<close>, and a \<^verbatim>\<open>TutorMessage\<close> otherwise.
\<close>

theorem discriminant:
  assumes "get_thread thread_id w = (Some thread, w')"
    and "ConversationThreadRedis_get (redis w) thread_id = Some thread_redis"
  shows "\<exists>stored elems.
           json_loads (r_messages thread_redis) = Inr stored \<and> py_iter stored = Inr elems \<and>
           list_all2 (\<lambda>message m. is_StudentMessage m = has_action message \<and>
                                   is_TutorMessage m = (\<not> has_action message))
             elems (messages thread)"
proof -
  from assms obtain
    m: "decode_messages thread_redis w = (Inr (messages thread), w')"
    by (auto elim!: get_thread_Some)
  then obtain stored elems where
    s: "json_loads (r_messages thread_redis) = Inr stored" and
    e: "py_iter stored = Inr elems" and
    l: "typed_messages_loop elems w = (Inr (messages thread), w')"
    by (auto simp: decode_messages_def split: sum.splits)
  show ?thesis
    using s e typed_messages_loop_kinds [OF l] by blast
qed

theorem discriminant_witness:
  "get_thread ''conv123'' stored_world = (Some conv123, stored_world) \<and>
   ConversationThreadRedis_get (redis stored_world) ''conv123'' = Some (thread_record conv123) \<and>
   map is_StudentMessage (messages conv123) = [True, False] \<and>
   (\<exists>stored elems.
      json_loads (r_messages (thread_record conv123)) = Inr stored \<and> py_iter stored = Inr elems \<and>
      list_all2 (\<lambda>message m. is_StudentMessage m = has_action message \<and>
                              is_TutorMessage m = (\<not> has_action message))
        elems (messages conv123))"
proof -
  have i: "id' conv123 = ''conv123''"
    by (simp add: conv123_def)
  have r: "ConversationThreadRedis_get (redis stored_world) ''conv123'' = Some (thread_record conv123)"
    by (simp add: stored_world_def ConversationThreadRedis_get_def thread_record_def conv123_def)
  have g: "get_thread ''conv123'' stored_world = (Some conv123, stored_world)"
    using get_thread_stored [of stored_world conv123] r valid_conv123 unfolding i by simp
  have k: "map is_StudentMessage (messages conv123) = [True, False]"
    by (simp add: conv123_def)
  show ?thesis
    using g r k discriminant [OF g r] by simp
qed

lemma typed_message_not_bad:
  assumes "typed_message message w = (Inr m, w')"
  shows "\<not> bad_message message"
proof -
  obtain kw where kw: "message = PyDict kw"
    using assms by (cases message) (simp_all add: typed_message_def)
  show ?thesis
    using assms unfolding kw
    by (auto simp: typed_message_def bad_message_def StudentMessage_init_def TutorMessage_init_def
        timestamp_field_def required_field_def
        split: option.splits prod.splits sum.splits if_splits pyobj.splits)
qed

lemma typed_messages_loop_not_bad:
  "typed_messages_loop elems w = (Inr ms, w') \<Longrightarrow> \<not> list_ex bad_message elems"
proof (induction elems arbitrary: w ms)
  case Nil
  then show ?case by simp
next
  case (Cons message rest)
  from Cons.prems obtain m w1 ms' where
    m: "typed_message message w = (Inr m, w1)" and
    rest: "typed_messages_loop rest w1 = (Inr ms', w')"
    by (auto split: prod.splits sum.splits)
  show ?case
    using typed_message_not_bad [OF m] Cons.IH [OF rest] by simp
qed

text \<open>
  Claim C4, as the code has it. A record that fails to decode (a JSON field that is
  malformed, a timestamp that does not parse, a message with an unknown action or an
  unparsable timestamp) makes \<open>get_thread\<close> return \<open>None\<close>, the result it returns for an
  absent record; no partially decoded thread is returned. The service has no
  \<^verbatim>\<open>CorruptRecordError\<close>: the \<^verbatim>\<open>except Exception\<close> branch returns \<^verbatim>\<open>None\<close>.
\<close>

theorem corrupt_record_not_found:
  assumes "ConversationThreadRedis_get (redis w) thread_id = Some thread_redis"
    and "decode_failure thread_redis"
  shows "fst (get_thread thread_id w) = None"
proof (rule ccontr)
  assume "fst (get_thread thread_id w) \<noteq> None"
  then obtain thread w' where g: "get_thread thread_id w = (Some thread, w')"
    by (cases "get_thread thread_id w") auto
  from g assms(1) obtain
    m: "decode_messages thread_redis w = (Inr (messages thread), w')" and
    h: "decode_header thread_redis (messages thread) = Inr thread"
    by (auto elim!: get_thread_Some)
  from m obtain stored elems where
    s: "json_loads (r_messages thread_redis) = Inr stored" and
    e: "py_iter stored = Inr elems" and
    l: "typed_messages_loop elems w = (Inr (messages thread), w')"
    by (auto simp: decode_messages_def split: sum.splits)
  have nb: "\<not> list_ex bad_message elems"
    using l by (rule typed_messages_loop_not_bad)
  have hd: "\<not> isl (json_loads (usmos_json thread_redis)) \<and>
      \<not> isl (json_loads (content_ids thread_redis)) \<and>
      \<not> isl (fromisoformat (r_created_at thread_redis)) \<and>
      \<not> isl (fromisoformat (r_updated_at thread_redis))"
    using h by (auto simp: decode_header_def split: sum.splits)
  show False
    using assms(2) s e nb hd by (simp add: decode_failure_def)
qed

theorem corrupt_record_not_found_witness:
  "ConversationThreadRedis_get (redis bogus_action_world) ''conv456'' = Some bogus_action_record \<and>
   decode_failure bogus_action_record \<and>
   fst (get_thread ''conv456'' bogus_action_world) = None"
proof -
  have r: "ConversationThreadRedis_get (redis bogus_action_world) ''conv456'' = Some bogus_action_record"
    by (simp add: bogus_action_world_def ConversationThreadRedis_get_def bogus_action_record_def
        thread_record_def fresh_thread_def)
  have d: "decode_failure bogus_action_record"
    by (simp add: decode_failure_def bogus_action_record_def thread_record_def bad_message_def)
  show ?thesis
    using r d corrupt_record_not_found [OF r d] by simp
qed

text \<open>
  The claim as stated fails: the record \<open>corrupt_record\<close> is stored and its message log
  is not JSON, and \<open>get_thread\<close> returns for it what it returns for the id \<^verbatim>\<open>conv789\<close>,
  which is not stored.
\<close>

theorem corrupt_like_absent:
  "ConversationThreadRedis_get (redis corrupt_world) ''conv456'' = Some corrupt_record \<and>
   json_loads (r_messages corrupt_record) = Inl JSONDecodeError \<and>
   ConversationThreadRedis_get (redis corrupt_world) ''conv789'' = None \<and>
   get_thread ''conv456'' corrupt_world = (None, corrupt_world) \<and>
   get_thread ''conv789'' corrupt_world = (None, corrupt_world) \<and>
   fst (get_thread ''conv456'' corrupt_world) = fst (get_thread ''conv789'' corrupt_world)"
proof -
  have r: "ConversationThreadRedis_get (redis corrupt_world) ''conv456'' = Some corrupt_record"
    by (simp add: corrupt_world_def ConversationThreadRedis_get_def corrupt_record_def
        thread_record_def fresh_thread_def)
  have a: "ConversationThreadRedis_get (redis corrupt_world) ''conv789'' = None"
    by (simp add: corrupt_world_def ConversationThreadRedis_get_def corrupt_record_def
        thread_record_def fresh_thread_def)
  have j: "json_loads (r_messages corrupt_record) = Inl JSONDecodeError"
    by (simp add: corrupt_record_def)
  have g1: "get_thread ''conv456'' corrupt_world = (None, corrupt_world)"
    by (simp add: get_thread_def r decode_messages_def j)
  have g2: "get_thread ''conv789'' corrupt_world = (None, corrupt_world)"
    by (simp add: get_thread_def a)
  show ?thesis
    using r a j g1 g2 by simp
qed

section \<open>The content id of a loaded thread\<close>

text \<open>
  Claim C7. \<open>get_thread\<close> takes the first element of the decoded \<^verbatim>\<open>content_ids\<close>, and
  \<^verbatim>\<open>None\<close> when the list is empty. With \<^verbatim>\<open>None\<close> the constructor of
  \<^verbatim>\<open>ConversationThread\<close> raises, since \<^verbatim>\<open>content_id: str\<close> is not optional, and the
  \<^verbatim>\<open>except\<close> branch returns \<^verbatim>\<open>None\<close>: the record of \<open>fresh_thread\<close> with the empty
  list is not loaded at all, while the same record with its one content id is loaded.
\<close>

theorem empty_content_ids_not_loaded:
  "ConversationThreadRedis_get (redis no_content_world) ''conv456'' = Some no_content_record \<and>
   json_loads (content_ids no_content_record) = Inr (PyList []) \<and>
   get_thread ''conv456'' no_content_world = (None, no_content_world) \<and>
   get_thread ''conv456'' (empty_world\<lparr>redis := [thread_record fresh_thread]\<rparr>) =
     (Some fresh_thread, empty_world\<lparr>redis := [thread_record fresh_thread]\<rparr>)"
proof -
  have r: "ConversationThreadRedis_get (redis no_content_world) ''conv456'' = Some no_content_record"
    by (simp add: no_content_world_def ConversationThreadRedis_get_def no_content_record_def
        thread_record_def fresh_thread_def)
  have j: "json_loads (content_ids no_content_record) = Inr (PyList [])"
    by (simp add: no_content_record_def)
  have m: "decode_messages no_content_record no_content_world = (Inr [], no_content_world)"
    by (simp add: decode_messages_def no_content_record_def thread_record_def fresh_thread_def)
  have h: "decode_header no_content_record [] = Inl ValidationError"
    by (simp add: decode_header_def no_content_record_def thread_record_def fresh_thread_def
        fromisoformat_isoformat valid_noon ConversationThread_init_def try_map_validate_str)
  have g1: "get_thread ''conv456'' no_content_world = (None, no_content_world)"
    by (simp add: get_thread_def r m h)
  have i: "id' fresh_thread = ''conv456''"
    by (simp add: fresh_thread_def)
  have s: "ConversationThreadRedis_get (redis (empty_world\<lparr>redis := [thread_record fresh_thread]\<rparr>))
      (id' fresh_thread) = Some (thread_record fresh_thread)"
    by (simp add: ConversationThreadRedis_get_def thread_record_def)
  have g2: "get_thread ''conv456'' (empty_world\<lparr>redis := [thread_record fresh_thread]\<rparr>) =
      (Some fresh_thread, empty_world\<lparr>redis := [thread_record fresh_thread]\<rparr>)"
    using get_thread_stored [OF s valid_fresh_thread] unfolding i .
  show ?thesis
    using r j g1 g2 by simp
qed

section \<open>Starting a conversation\<close>

lemma create_thread_raises:
  "fst (create_thread sid item w) = Inl DataError \<and> redis (snd (create_thread sid item w)) = redis w"
  by (simp add: create_thread_def uuid4_def datetime_now_def save_thread_raises Let_def)

lemma create_threads_raises:
  "items \<noteq> [] \<Longrightarrow>
   fst (create_threads sid items w) = Inl DataError \<and>
   redis (snd (create_threads sid items w)) = redis w"
proof (cases items)
  case Nil
  then show "items \<noteq> [] \<Longrightarrow> ?thesis" by simp
next
  case (Cons item rest)
  obtain x w1 where c: "create_thread sid item w = (x, w1)"
    by (cases "create_thread sid item w")
  then have "x = Inl DataError" "redis w1 = redis w"
    using create_thread_raises [of sid item w] by simp_all
  then show "items \<noteq> [] \<Longrightarrow> ?thesis"
    using Cons c by simp
qed

lemma start_conversation_raises:
  assumes "get_mock_content us \<noteq> []"
  shows "fst (start_conversation sid us w) = Inl DataError \<and>
         redis (snd (start_conversation sid us w)) = redis w"
proof -
  obtain x w1 where c: "create_threads sid (get_mock_content us) w = (x, w1)"
    by (cases "create_threads sid (get_mock_content us) w")
  then have "x = Inl DataError" "redis w1 = redis w"
    using create_threads_raises [OF assms, of sid w] by simp_all
  then show ?thesis
    using assms c by (simp add: start_conversation_def)
qed

text \<open>
  Every content \<^verbatim>\<open>get_mock_content\<close> returns is found again by \<open>get_content\<close> under its
  id, so the content of every thread \<open>start_conversation\<close> creates resolves.
\<close>

lemma created_content_resolves:
  assumes "item \<in> set (get_mock_content us)"
  shows "get_content (cr_content_id item) = Some item"
proof -
  from assms obtain u where "map_of mock_data u = Some item"
    by (auto simp: get_mock_content_def List.map_filter_def)
  then have "(u, item) \<in> set mock_data"
    by (rule map_of_SomeD)
  then have c: "item = content123 \<or> item = content456 \<or> item = content789"
    by (auto simp: mock_data_def)
  have i: "cr_content_id content123 = ''content123''" "cr_content_id content456 = ''content456''"
    "cr_content_id content789 = ''content789''"
    by (simp_all add: content123_def content456_def content789_def)
  have "get_content ''content123'' = Some content123" "get_content ''content456'' = Some content456"
    "get_content ''content789'' = Some content789"
    by (simp_all add: get_content_def mock_content_def)
  then show ?thesis
    using c i by auto
qed

lemma mock_nope: "get_mock_content [''MATH.GEO.9''] = []"
  by (simp add: get_mock_content_def List.map_filter_def mock_data_def)

lemma mock_one: "get_mock_content [''MATH.ALG.1''] = [content123]"
  by (simp add: get_mock_content_def List.map_filter_def mock_data_def)

text \<open>
  Claim C6. For tags without content \<open>start_conversation\<close> returns empty lists of
  threads and contents and leaves the world as it was. For the tag \<^verbatim>\<open>MATH.ALG.1\<close>, for
  which the content \<^verbatim>\<open>content123\<close> is found, it raises \<^verbatim>\<open>DataError\<close> at the save of
  the first thread: no thread is returned and the database stays empty.
\<close>

theorem start_conversation_raises_at_first_save:
  "get_mock_content [''MATH.GEO.9''] = [] \<and>
   start_conversation ''student123'' [''MATH.GEO.9''] empty_world =
     (Inr \<lparr>threads = [], contents = []\<rparr>, empty_world) \<and>
   get_mock_content [''MATH.ALG.1''] = [content123] \<and>
   fst (start_conversation ''student123'' [''MATH.ALG.1''] empty_world) = Inl DataError \<and>
   redis (snd (start_conversation ''student123'' [''MATH.ALG.1''] empty_world)) = []"
proof -
  have a: "start_conversation ''student123'' [''MATH.GEO.9''] empty_world =
      (Inr \<lparr>threads = [], contents = []\<rparr>, empty_world)"
    by (simp add: start_conversation_def mock_nope)
  have ne: "get_mock_content [''MATH.ALG.1''] \<noteq> []"
    by (simp add: mock_one)
  have e: "redis empty_world = []"
    by (simp add: empty_world_def)
  show ?thesis
    using mock_nope a mock_one start_conversation_raises [OF ne, of "''student123''" empty_world] e
    by simp
qed

section \<open>What the operations leave unchanged\<close>

lemma timestamp_field_frame:
  "timestamp_field kw w = (r, w') \<Longrightarrow> redis w' = redis w \<and> clock w' = clock w"
  by (auto simp: timestamp_field_def datetime_now_def split: option.splits)

lemma typed_message_frame:
  "typed_message message w = (r, w') \<Longrightarrow> redis w' = redis w \<and> clock w' = clock w"
  by (auto simp: typed_message_def StudentMessage_init_def TutorMessage_init_def
      split: sum.splits pyobj.splits if_splits prod.splits dest: timestamp_field_frame)

lemma typed_messages_loop_frame:
  "typed_messages_loop elems w = (r, w') \<Longrightarrow> redis w' = redis w \<and> clock w' = clock w"
proof (induction elems arbitrary: w r w')
  case Nil
  then show ?case by simp
next
  case (Cons message rest)
  show ?case
  proof (cases "typed_message message w")
    case (Pair x w1)
    note f = typed_message_frame [OF Pair]
    show ?thesis
    proof (cases x)
      case (Inl e)
      then show ?thesis using Cons.prems Pair f by simp
    next
      case (Inr m)
      obtain y w2 where l: "typed_messages_loop rest w1 = (y, w2)"
        by (cases "typed_messages_loop rest w1")
      have "w' = w2"
        using Cons.prems Pair Inr l by (auto split: sum.splits)
      then show ?thesis
        using Cons.IH [OF l] f by simp
    qed
  qed
qed

lemma get_thread_frame:
  "get_thread thread_id w = (r, w') \<Longrightarrow> redis w' = redis w \<and> clock w' = clock w"
  by (auto simp: get_thread_def decode_messages_def
      split: option.splits sum.splits prod.splits dest: typed_messages_loop_frame)

lemma generate_response_frame:
  "generate_response svc thread item w = (r, w') \<Longrightarrow> redis w' = redis w \<and> clock w' = clock w"
  by (auto simp: generate_response_def generate_dspy_response_def lm_call_def datetime_now_def
      split: option.splits if_splits prod.splits)

section \<open>Loading the same record at another time\<close>

lemma timestamp_field_again:
  "timestamp_field kw w = (Inr t, w') \<Longrightarrow> \<exists>t2 v'. timestamp_field kw v = (Inr t2, v')"
  by (auto simp: timestamp_field_def datetime_now_def split: option.splits)

lemma StudentMessage_init_again:
  assumes "StudentMessage_init kw w = (Inr m, w')"
  shows "\<exists>m2 v'. StudentMessage_init kw v = (Inr m2, v')"
proof -
  from assms obtain cid c a t where
    f: "required_field kw ''conversation_id'' validate_str = Inr cid"
       "required_field kw ''content'' validate_str = Inr c"
       "required_field kw ''action'' validate_action = Inr a" and
    ts: "timestamp_field kw w = (Inr t, w')"
    by (auto simp: StudentMessage_init_def split: prod.splits sum.splits)
  from timestamp_field_again [OF ts] obtain t2 v' where "timestamp_field kw v = (Inr t2, v')"
    by blast
  then have "StudentMessage_init kw v = (Inr (StudentMessage cid c a t2), v')"
    using f by (simp add: StudentMessage_init_def)
  then show ?thesis by blast
qed

lemma TutorMessage_init_again:
  assumes "TutorMessage_init kw w = (Inr m, w')"
  shows "\<exists>m2 v'. TutorMessage_init kw v = (Inr m2, v')"
proof -
  from assms obtain cid c fb t where
    f: "required_field kw ''conversation_id'' validate_str = Inr cid"
       "required_field kw ''content'' validate_str = Inr c"
       "(case map_of kw ''feedback'' of None \<Rightarrow> Inr [] | Some v \<Rightarrow> validate_feedback v) = Inr fb" and
    ts: "timestamp_field kw w = (Inr t, w')"
    by (auto simp: TutorMessage_init_def split: prod.splits sum.splits)
  from timestamp_field_again [OF ts] obtain t2 v' where "timestamp_field kw v = (Inr t2, v')"
    by blast
  then have "TutorMessage_init kw v = (Inr (TutorMessage cid c fb t2), v')"
    using f by (simp add: TutorMessage_init_def)
  then show ?thesis by blast
qed

lemma typed_message_again:
  assumes "typed_message message w = (Inr m, w')"
  shows "\<exists>m2 v'. typed_message message v = (Inr m2, v')"
proof -
  obtain kw where kw: "message = PyDict kw"
    using assms by (cases message) (simp_all add: typed_message_def)
  show ?thesis
  proof (cases "has_action message")
    case True
    then have "StudentMessage_init kw w = (Inr m, w')"
      using assms kw by (auto simp: typed_message_def has_action_def split: option.splits)
    from StudentMessage_init_again [OF this, of v] show ?thesis
      using True kw by (auto simp: typed_message_def has_action_def split: option.splits)
  next
    case False
    then have "TutorMessage_init kw w = (Inr m, w')"
      using assms kw by (auto simp: typed_message_def has_action_def split: option.splits)
    from TutorMessage_init_again [OF this, of v] show ?thesis
      using False kw by (auto simp: typed_message_def has_action_def split: option.splits)
  qed
qed

lemma typed_messages_loop_again:
  "typed_messages_loop elems w = (Inr ms, w') \<Longrightarrow>
   \<exists>ms2 v'. typed_messages_loop elems v = (Inr ms2, v')"
proof (induction elems arbitrary: w v ms)
  case Nil
  then show ?case by simp
next
  case (Cons message rest)
  from Cons.prems obtain m w1 ms' where
    m: "typed_message message w = (Inr m, w1)" and
    rest: "typed_messages_loop rest w1 = (Inr ms', w')"
    by (auto split: prod.splits sum.splits)
  from typed_message_again [OF m, of v] obtain m2 v1 where
    m2: "typed_message message v = (Inr m2, v1)"
    by blast
  from Cons.IH [OF rest, of v1] obtain ms2 v' where
    r2: "typed_messages_loop rest v1 = (Inr ms2, v')"
    by blast
  show ?case
    using m2 r2 by simp
qed

lemma decode_header_messages:
  "decode_header r ms = Inr t \<Longrightarrow> decode_header r ms2 = Inr (t\<lparr>messages := ms2\<rparr>)"
  by (auto simp: decode_header_def ConversationThread_init_def split: sum.splits if_splits)

text \<open>
  A record that is loaded once is loaded whenever the database holds it: the clock only
  sets the timestamps of messages stored without one.
\<close>

lemma get_thread_again:
  assumes "get_thread thread_id w = (Some t, w1)" and "redis v = redis w"
  shows "\<exists>t2 v1. get_thread thread_id v = (Some t2, v1)"
proof -
  from assms(1) obtain thread_redis where
    r: "ConversationThreadRedis_get (redis w) thread_id = Some thread_redis" and
    m: "decode_messages thread_redis w = (Inr (messages t), w1)" and
    h: "decode_header thread_redis (messages t) = Inr t"
    by (rule get_thread_Some)
  from m obtain stored elems where
    s: "json_loads (r_messages thread_redis) = Inr stored" and
    e: "py_iter stored = Inr elems" and
    l: "typed_messages_loop elems w = (Inr (messages t), w1)"
    by (auto simp: decode_messages_def split: sum.splits)
  from typed_messages_loop_again [OF l, of v] obtain ms2 v1 where
    l2: "typed_messages_loop elems v = (Inr ms2, v1)"
    by blast
  have "get_thread thread_id v = (Some (t\<lparr>messages := ms2\<rparr>), v1)"
    using r assms(2) s e l2 decode_header_messages [OF h, of ms2]
    by (simp add: get_thread_def decode_messages_def)
  then show ?thesis by blast
qed

lemma decode_header_Inr:
  "decode_header r ms = Inr t \<Longrightarrow>
   fromisoformat (r_created_at r) = Inr (created_at t) \<and>
   fromisoformat (r_updated_at r) = Inr (updated_at t) \<and>
   id' t = r_id r \<and> student_id t = r_student_id r \<and> messages t = ms"
  by (auto simp: decode_header_def ConversationThread_init_def split: sum.splits if_splits)

lemma get_thread_id:
  assumes "get_thread thread_id w = (Some thread, w')"
  shows "id' thread = thread_id"
proof -
  from assms obtain thread_redis where
    r: "ConversationThreadRedis_get (redis w) thread_id = Some thread_redis" and
    h: "decode_header thread_redis (messages thread) = Inr thread"
    by (rule get_thread_Some)
  show ?thesis
    using decode_header_Inr [OF h] get_Some_id [OF r] by simp
qed

lemma generate_response_conversation_id:
  "generate_response svc thread item w = (response, w') \<Longrightarrow> conversation_id response = id' thread"
  by (auto simp: generate_response_def generate_dspy_response_def lm_call_def datetime_now_def
      split: option.splits if_splits prod.splits)

section \<open>Appending a message\<close>

text \<open>
  When the thread of the message is loaded, \<open>add_message\<close> raises at its save, and the
  database is as it was.
\<close>

lemma add_message_raises:
  assumes "get_thread (conversation_id m) w = (Some t, w1)"
  shows "add_message m w = (Inl DataError, w1\<lparr>ticks := Suc (ticks w1)\<rparr>)"
  using assms by (simp add: add_message_def datetime_now_def save_thread_raises Let_def)

lemma add_message_raises_again:
  assumes "get_thread (conversation_id m) w = (Some t, w1)" and "redis v = redis w"
  shows "fst (add_message m v) = Inl DataError \<and> redis (snd (add_message m v)) = redis w"
proof -
  from get_thread_again [OF assms] obtain t2 v1 where
    g: "get_thread (conversation_id m) v = (Some t2, v1)"
    by blast
  have "redis v1 = redis v"
    using get_thread_frame [OF g] by simp
  then show ?thesis
    using add_message_raises [OF g] assms(2) by simp
qed

section \<open>Regenerating the last tutor message\<close>

lemma valid_asked_thread: "valid_thread asked_thread"
  by (simp add: valid_thread_def asked_thread_def valid_noon)

lemma get_thread_stored_world: "get_thread ''conv123'' stored_world = (Some conv123, stored_world)"
proof -
  have "ConversationThreadRedis_get (redis stored_world) (id' conv123) = Some (thread_record conv123)"
    by (simp add: stored_world_def ConversationThreadRedis_get_def thread_record_def)
  from get_thread_stored [OF this valid_conv123] show ?thesis
    by (simp add: conv123_def)
qed

lemma get_thread_asked_world: "get_thread ''conv789'' asked_world = (Some asked_thread, asked_world)"
proof -
  have "ConversationThreadRedis_get (redis asked_world) (id' asked_thread) =
      Some (thread_record asked_thread)"
    by (simp add: asked_world_def ConversationThreadRedis_get_def thread_record_def)
  from get_thread_stored [OF this valid_asked_thread] show ?thesis
    by (simp add: asked_thread_def)
qed

lemma get_content123: "get_content ''content123'' = Some content123"
  by (simp add: get_content_def mock_content_def)

text \<open>
  For a thread that is loaded and whose content is found, \<open>regenerate_tutor_response\<close>
  raises and leaves the database as it was: with a tutor message last, at the save of the
  shortened thread; otherwise at the save of \<open>add_message\<close>.
\<close>

lemma regenerate_tutor_response_raises:
  assumes g: "get_thread tid w = (Some t, w1)" and i: "get_content (content_id t) = Some item"
  shows "fst (regenerate_tutor_response svc tid w) = Inl DataError \<and>
         redis (snd (regenerate_tutor_response svc tid w)) = redis w"
proof (cases "messages t \<noteq> [] \<and> is_TutorMessage (last (messages t))")
  case True
  have "regenerate_tutor_response svc tid w = (Inl DataError, w1)"
    using g i True by (simp add: regenerate_tutor_response_def save_thread_raises Let_def)
  then show ?thesis
    using get_thread_frame [OF g] by simp
next
  case False
  obtain response w3 where gr: "generate_response svc t item w1 = (response, w3)"
    by (cases "generate_response svc t item w1")
  have c: "conversation_id response = tid"
    using generate_response_conversation_id [OF gr] get_thread_id [OF g] by simp
  have f: "redis w3 = redis w"
    using generate_response_frame [OF gr] get_thread_frame [OF g] by simp
  have g': "get_thread (conversation_id response) w = (Some t, w1)"
    using g c by simp
  obtain x w4 where a: "add_message response w3 = (x, w4)"
    by (cases "add_message response w3")
  then have x: "x = Inl DataError" "redis w4 = redis w"
    using add_message_raises_again [OF g' f] by simp_all
  have "regenerate_tutor_response svc tid w = (Inl DataError, w4)"
    using g i False gr a x by (auto simp: regenerate_tutor_response_def Let_def)
  then show ?thesis
    using x by simp
qed

text \<open>
  Claim C3. The database \<open>stored_world\<close> holds the thread of the test suite, whose last
  message is a tutor message: \<open>regenerate_tutor_response\<close> raises \<^verbatim>\<open>DataError\<close> at the
  save of the shortened thread and leaves the world as it was, so the thread loaded
  afterwards is the old one, its last message not removed and no message appended. The
  database \<open>asked_world\<close> holds a thread whose last message is a student message: the
  call raises \<^verbatim>\<open>DataError\<close> as well and the thread loaded afterwards is the old one, no
  message appended.
\<close>

theorem regenerate_raises_log_unchanged:
  "get_thread ''conv123'' stored_world = (Some conv123, stored_world) \<and>
   get_content (content_id conv123) = Some content123 \<and>
   is_TutorMessage (last (messages conv123)) \<and>
   regenerate_tutor_response template_service ''conv123'' stored_world =
     (Inl DataError, stored_world) \<and>
   get_thread ''conv789'' asked_world = (Some asked_thread, asked_world) \<and>
   get_content (content_id asked_thread) = Some content123 \<and>
   is_StudentMessage (last (messages asked_thread)) \<and>
   fst (regenerate_tutor_response template_service ''conv789'' asked_world) = Inl DataError \<and>
   fst (get_thread ''conv789''
          (snd (regenerate_tutor_response template_service ''conv789'' asked_world))) =
     Some asked_thread"
proof -
  have i1: "get_content (content_id conv123) = Some content123"
    by (simp add: conv123_def get_content123)
  have l1: "messages conv123 \<noteq> [] \<and> is_TutorMessage (last (messages conv123))"
    by (simp add: conv123_def)
  have r1: "regenerate_tutor_response template_service ''conv123'' stored_world =
      (Inl DataError, stored_world)"
    using get_thread_stored_world i1 l1
    by (simp add: regenerate_tutor_response_def save_thread_raises Let_def)
  have i2: "get_content (content_id asked_thread) = Some content123"
    by (simp add: asked_thread_def get_content123)
  have l2: "is_StudentMessage (last (messages asked_thread))"
    by (simp add: asked_thread_def)
  let ?w = "snd (regenerate_tutor_response template_service ''conv789'' asked_world)"
  have r2: "fst (regenerate_tutor_response template_service ''conv789'' asked_world) = Inl DataError"
    and d2: "redis ?w = redis asked_world"
    using regenerate_tutor_response_raises [OF get_thread_asked_world i2, of template_service]
    by simp_all
  have "ConversationThreadRedis_get (redis ?w) (id' asked_thread) = Some (thread_record asked_thread)"
    unfolding d2 by (simp add: asked_world_def ConversationThreadRedis_get_def thread_record_def)
  from get_thread_stored [OF this valid_asked_thread]
  have g2: "fst (get_thread ''conv789'' ?w) = Some asked_thread"
    by (simp add: asked_thread_def)
  show ?thesis
    using get_thread_stored_world i1 l1 r1 get_thread_asked_world i2 l2 r2 g2 by simp
qed

section \<open>A student message that asks to regenerate\<close>

lemma handle_student_action_raises:
  assumes g: "get_thread (conversation_id message) w = (Some t, w1)"
    and i: "get_content (content_id t) = Some item"
  shows "fst (handle_student_action svc message w) = Inl DataError \<and>
         redis (snd (handle_student_action svc message w)) = redis w"
proof -
  have f: "redis w1 = redis w"
    using get_thread_frame [OF g] by simp
  obtain x w2 where a: "add_message message w1 = (x, w2)"
    by (cases "add_message message w1")
  then have x: "x = Inl DataError" "redis w2 = redis w"
    using add_message_raises_again [OF g f] by simp_all
  have "handle_student_action svc message w = (Inl DataError, w2)"
    using g i a x by (simp add: handle_student_action_def)
  then show ?thesis
    using x by simp
qed

text \<open>
  Claim C5. For the student message \<open>again\<close>, whose action is \<^verbatim>\<open>regenerate\<close>, and the
  database \<open>stored_world\<close>, \<open>handle_student_action\<close> raises \<^verbatim>\<open>DataError\<close> at the save
  of \<open>add_message\<close>, before the regenerate operation is reached: no tutor message is
  returned, and the thread loaded afterwards is the old one, with its two messages.
\<close>

theorem regenerate_action_raises_log_unchanged:
  "is_StudentMessage again \<and> action again = Regenerate \<and>
   get_thread (conversation_id again) stored_world = (Some conv123, stored_world) \<and>
   get_content (content_id conv123) = Some content123 \<and>
   fst (handle_student_action template_service again stored_world) = Inl DataError \<and>
   fst (get_thread (conversation_id again)
          (snd (handle_student_action template_service again stored_world))) = Some conv123 \<and>
   length (messages conv123) = 2"
proof -
  have s: "is_StudentMessage again" and r: "action again = Regenerate"
    and c: "conversation_id again = ''conv123''"
    by (simp_all add: again_def)
  have g: "get_thread (conversation_id again) stored_world = (Some conv123, stored_world)"
    using get_thread_stored_world c by simp
  have i: "get_content (content_id conv123) = Some content123"
    by (simp add: conv123_def get_content123)
  let ?w = "snd (handle_student_action template_service again stored_world)"
  have h: "fst (handle_student_action template_service again stored_world) = Inl DataError"
    and d: "redis ?w = redis stored_world"
    using handle_student_action_raises [OF g i, of template_service] by simp_all
  have "ConversationThreadRedis_get (redis ?w) (id' conv123) = Some (thread_record conv123)"
    unfolding d by (simp add: stored_world_def ConversationThreadRedis_get_def thread_record_def)
  from get_thread_stored [OF this valid_conv123]
  have g2: "fst (get_thread (conversation_id again) ?w) = Some conv123"
    using c by (simp add: conv123_def)
  have n: "length (messages conv123) = 2"
    by (simp add: conv123_def)
  show ?thesis
    using s r g i h g2 n by simp
qed

end
